theory Spec2Isabelle
  imports Main "HOL-Library.Word"
begin

unbundle bit_operations_syntax

section \<open>Data model of \<open>src/heap/heap-inl.h\<close>\<close>

text \<open>
  The embedding follows the 64-bit build: an \<open>Address\<close> is a 64-bit machine word and
  \<open>kPointerSize\<close> is 8. Pointer arithmetic wraps modulo \<open>2 ^ 64\<close>. C++ \<open>int\<close> values
  (sizes, lengths, indices) are \<open>int\<close>; they are converted to machine words where the
  source converts them (\<open>word_of_int\<close>).
\<close>

type_synonym Address = "64 word"

definition kPointerSize :: Address where
  "kPointerSize = 8"

text \<open>
  \<open>Object*\<close> is a tagged word: either a small integer or a pointer to a heap object.
  The heap object is identified by its (untagged) address, \<open>HeapObject::address()\<close>.
\<close>

datatype Object = Smi int | HeapObject Address

fun IsHeapObject :: "Object \<Rightarrow> bool" where
  "IsHeapObject (Smi _) = False"
| "IsHeapObject (HeapObject _) = True"

datatype AllocationSpace = NEW_SPACE | OLD_SPACE | CODE_SPACE | MAP_SPACE | LO_SPACE

text \<open>
  \<open>static_cast<uint32_t>(allocation_space)\<close>: the position in the enumeration, which is
  declared in \<open>globals.h\<close>.
\<close>

fun AllocationSpace_uint32 :: "AllocationSpace \<Rightarrow> 32 word" where
  "AllocationSpace_uint32 NEW_SPACE = 0"
| "AllocationSpace_uint32 OLD_SPACE = 1"
| "AllocationSpace_uint32 CODE_SPACE = 2"
| "AllocationSpace_uint32 MAP_SPACE = 3"
| "AllocationSpace_uint32 LO_SPACE = 4"

datatype FindMementoMode = kForRuntime | kForGC

datatype AllocationAlignment = kWordAligned | kDoubleAligned | kDoubleUnaligned

datatype Executability = NOT_EXECUTABLE | EXECUTABLE

text \<open>
  \<open>AllocationResult\<close>: the object of a successful allocation, or the space in which
  the caller should retry after a collection.
\<close>

datatype AllocationResult = Success Address | Retry AllocationSpace

datatype HeapState = NOT_IN_GC | SCAVENGE | MARK_COMPACT

datatype MemoryChunkFlag =
  IN_FROM_SPACE | IN_TO_SPACE | NEW_SPACE_BELOW_AGE_MARK
  | PAGE_NEW_OLD_PROMOTION | PAGE_NEW_NEW_PROMOTION

text \<open>
  The ways in which the process is terminated instead of returning: a failed \<open>DCHECK\<close>
  (debug builds only), \<open>UNREACHABLE()\<close>, and an integer division by zero.
\<close>

datatype Fatal = DCHECK_failed | UNREACHABLE | Division_by_zero

text \<open>
  The header of a memory chunk (page). \<open>owner_identity\<close> is \<open>owner()->identity()\<close>,
  \<open>owner_age_mark\<close> is \<open>reinterpret_cast<SemiSpace*>(owner())->age_mark()\<close>.
  \<open>Page::Contains\<close> is declared outside this file; it is a parameter of the page
  (\<open>chunk_Contains\<close>).
\<close>

record MemoryChunk =
  chunk_flags :: "MemoryChunkFlag set"
  owner_identity :: AllocationSpace
  owner_age_mark :: Address
  chunk_Contains :: "Address \<Rightarrow> bool"

text \<open>
  Build constants and runtime flags. \<open>DEBUG\<close> tells whether the build defines the
  \<open>DEBUG\<close> macro (then \<open>DCHECK\<close> is checked and the \<open>#ifdef DEBUG\<close> blocks are
  compiled in). \<open>kPageSizeBits\<close>, \<open>kMaxRegularHeapObjectSize\<close>,
  \<open>ExternalString::kResourceOffset\<close> and \<open>FixedArray::kHeaderSize\<close> are declared
  outside this file, so they are parameters here.
\<close>

record Config =
  DEBUG :: bool
  kPageSizeBits :: nat
  kMaxRegularHeapObjectSize :: int
  FLAG_gc_interval :: int
  FLAG_verify_predictable :: bool
  FLAG_dump_allocations_digest_at_alloc :: int
  FLAG_trace_allocation_stack_interval :: int
  kResourceOffset :: Address
  kFixedArrayHeaderSize :: Address

text \<open>
  The state of the heap, as far as this file reads or writes it. \<open>'sp\<close> is the state
  of one space; the spaces' own allocators are parameters (\<open>Externals\<close> below).

  \<^item> \<open>memory\<close>: the tagged word stored at an address of the managed heap;
  \<^item> \<open>chunks\<close>: the chunk header found at a chunk's base address;
  \<^item> \<open>store_buffer\<close>: the slot addresses inserted so far, oldest first;
  \<^item> \<open>resource_field\<close>: the raw (untagged) external-resource pointer stored at an
    address, 0 for \<open>NULL\<close>; \<open>disposed\<close>: the resources whose \<open>Dispose()\<close> has been
    called, oldest first;
  \<^item> \<open>profiler_allocation_events\<close>, \<open>profiler_move_events\<close>, \<open>logger_move_events\<close>,
    \<open>printed_digests\<close>, \<open>printed_stacks\<close>, \<open>time_requests\<close>: what the profiler, the
    logger, standard output and the synthetic clock have received;
  \<^item> \<open>hook_calls\<close>: the calls of \<open>OnAllocationEvent\<close> so far, oldest first. This is
    an observation of the model, not a field of \<open>Heap\<close>.
\<close>

record 'sp Heap =
  gc_state :: HeapState
  allow_handle_allocation :: bool
  allow_heap_allocation :: bool
  always_allocate_scope_count :: int
  allocation_timeout :: int
  objs_since_last_full :: int
  objs_since_last_young :: int
  new_space :: 'sp
  old_space :: 'sp
  code_space :: 'sp
  map_space :: 'sp
  lo_space :: 'sp
  memory :: "Address \<Rightarrow> Object"
  chunks :: "Address \<Rightarrow> MemoryChunk"
  allocation_memento_map :: Address
  store_buffer :: "Address list"
  resource_field :: "Address \<Rightarrow> Address"
  disposed :: "Address list"
  allocations_count :: "32 word"
  raw_allocations_hash :: "32 word"
  is_tracking_allocations :: bool
  is_tracking_object_moves :: bool
  is_logging_code_events :: bool
  profiler_allocation_events :: "(Address \<times> int) list"
  profiler_move_events :: "(Address \<times> Address \<times> int) list"
  logger_move_events :: "(Address \<times> Address) list"
  printed_digests :: "(32 word \<times> 32 word) list"
  printed_stacks :: nat
  time_requests :: nat
  hook_calls :: "(Address \<times> int) list"

section \<open>Pages and generation membership\<close>

text \<open>
  Modelled from the spec: \<open>Page::FromAddress\<close>, \<open>MemoryChunk::FromAddress\<close> and
  \<open>Page::OnSamePage\<close> are not in this file. A page is a region of \<open>2 ^ kPageSizeBits\<close>
  bytes that owns the objects inside its address range: the page of an address is the
  address with its low \<open>kPageSizeBits\<close> bits cleared, and two addresses are on the same
  page when their pages are equal. \<open>MemoryChunk::IsFlagSet\<close> tests one flag of the header.
\<close>

definition Page_FromAddress :: "Config \<Rightarrow> Address \<Rightarrow> Address" where
  "Page_FromAddress cfg a = a AND NOT (mask (kPageSizeBits cfg))"

definition Page_OnSamePage :: "Config \<Rightarrow> Address \<Rightarrow> Address \<Rightarrow> bool" where
  "Page_OnSamePage cfg a1 a2 = (Page_FromAddress cfg a1 = Page_FromAddress cfg a2)"

definition IsFlagSet :: "MemoryChunk \<Rightarrow> MemoryChunkFlag \<Rightarrow> bool" where
  "IsFlagSet c f = (f \<in> chunk_flags c)"

text \<open>
  Modelled from the spec: \<open>MemoryChunk::InNewSpace\<close> is not in this file. A page is in
  the young generation when it carries one of the two semispace flags.
\<close>

definition MemoryChunk_InNewSpace :: "MemoryChunk \<Rightarrow> bool" where
  "MemoryChunk_InNewSpace c = (IsFlagSet c IN_FROM_SPACE \<or> IsFlagSet c IN_TO_SPACE)"

fun InFromSpace :: "Config \<Rightarrow> 'sp Heap \<Rightarrow> Object \<Rightarrow> bool" where
  "InFromSpace cfg h (Smi _) = False"
| "InFromSpace cfg h (HeapObject a) = IsFlagSet (chunks h (Page_FromAddress cfg a)) IN_FROM_SPACE"

fun InToSpace :: "Config \<Rightarrow> 'sp Heap \<Rightarrow> Object \<Rightarrow> bool" where
  "InToSpace cfg h (Smi _) = False"
| "InToSpace cfg h (HeapObject a) = IsFlagSet (chunks h (Page_FromAddress cfg a)) IN_TO_SPACE"

text \<open>
  \<open>Heap::InFromSpace\<close> and \<open>Heap::InToSpace\<close> (lines 399-410) above;
  \<open>Heap::InNewSpace\<close> (lines 388-397) below, first the value that it computes, then the
  condition of its \<open>DCHECK\<close>, then the function: with \<open>DEBUG\<close> a failed \<open>DCHECK\<close> stops
  the process, without \<open>DEBUG\<close> the \<open>DCHECK\<close> is empty.
\<close>

fun in_young_generation :: "Config \<Rightarrow> 'sp Heap \<Rightarrow> Object \<Rightarrow> bool" where
  "in_young_generation cfg h (Smi _) = False"
| "in_young_generation cfg h (HeapObject a) =
     MemoryChunk_InNewSpace (chunks h (Page_FromAddress cfg a))"

definition InNewSpace_dcheck :: "Config \<Rightarrow> 'sp Heap \<Rightarrow> Object \<Rightarrow> bool" where
  "InNewSpace_dcheck cfg h object =
     (\<not> in_young_generation cfg h object \<or> gc_state h \<noteq> NOT_IN_GC \<or> InToSpace cfg h object)"

definition InNewSpace :: "Config \<Rightarrow> 'sp Heap \<Rightarrow> Object \<Rightarrow> Fatal + bool" where
  "InNewSpace cfg h object =
     (let result = in_young_generation cfg h object
      in if DEBUG cfg \<and> \<not> InNewSpace_dcheck cfg h object then Inl DCHECK_failed
         else Inr result)"

section \<open>The write barrier\<close>

text \<open>
  Modelled from the spec: \<open>StoreBuffer::InsertEntry\<close> is not in this file. The store
  buffer is an append-only ordered sequence of slot addresses.
\<close>

definition StoreBuffer_InsertEntry :: "'sp Heap \<Rightarrow> Address \<Rightarrow> 'sp Heap" where
  "StoreBuffer_InsertEntry h slot = h\<lparr>store_buffer := store_buffer h @ [slot]\<rparr>"

text \<open>
  \<open>Heap::RecordWrite(object, slot, value)\<close> (lines 429-434). The three tests are evaluated
  from left to right, and a later one only if the earlier ones did not decide.
\<close>

definition RecordWrite :: "Config \<Rightarrow> 'sp Heap \<Rightarrow> Object \<Rightarrow> Address \<Rightarrow> Object \<Rightarrow> Fatal + 'sp Heap" where
  "RecordWrite cfg h object slot val =
     (case InNewSpace cfg h val of
        Inl e \<Rightarrow> Inl e
      | Inr value_new \<Rightarrow>
          if \<not> value_new then Inr h
          else if \<not> IsHeapObject object then Inr h
          else (case InNewSpace cfg h object of
                  Inl e \<Rightarrow> Inl e
                | Inr object_new \<Rightarrow>
                    if object_new then Inr h
                    else Inr (StoreBuffer_InsertEntry h slot)))"

text \<open>
  The collaborators of this file that are declared elsewhere: the allocators of the
  spaces (each works on the state of its own space), the type descriptor (object size,
  array length, instance-type tests; they read the tagged heap words), the validity test
  of a memento payload, the mixing step of the string hasher, and the array copiers.
\<close>

record 'sp Externals =
  NewSpace_AllocateRaw :: "int \<Rightarrow> AllocationAlignment \<Rightarrow> 'sp \<Rightarrow> AllocationResult \<times> 'sp"
  NewSpace_top :: "'sp \<Rightarrow> Address"
  PagedSpace_AllocateRaw :: "int \<Rightarrow> AllocationAlignment \<Rightarrow> 'sp \<Rightarrow> AllocationResult \<times> 'sp"
  PagedSpace_AllocateRawUnaligned :: "int \<Rightarrow> 'sp \<Rightarrow> AllocationResult \<times> 'sp"
  PagedSpace_AreaSize :: "'sp \<Rightarrow> int"
  LargeObjectSpace_AllocateRaw :: "int \<Rightarrow> Executability \<Rightarrow> 'sp \<Rightarrow> AllocationResult \<times> 'sp"
  SizeFromMap :: "(Address \<Rightarrow> Object) \<Rightarrow> Object \<Rightarrow> Address \<Rightarrow> int"
  FixedArrayBase_length :: "(Address \<Rightarrow> Object) \<Rightarrow> Address \<Rightarrow> int"
  IsExternalString :: "(Address \<Rightarrow> Object) \<Rightarrow> Address \<Rightarrow> bool"
  IsSharedFunctionInfo :: "(Address \<Rightarrow> Object) \<Rightarrow> Address \<Rightarrow> bool"
  payload_IsValid :: "(Address \<Rightarrow> Object) \<Rightarrow> Object \<Rightarrow> bool"
  AddCharacterCore :: "32 word \<Rightarrow> 16 word \<Rightarrow> 32 word"
  CopyFixedArrayWithMap :: "Address \<Rightarrow> Object \<Rightarrow> 'sp Heap \<Rightarrow> Fatal + (AllocationResult \<times> 'sp Heap)"
  CopyFixedDoubleArrayWithMap :: "Address \<Rightarrow> Object \<Rightarrow> 'sp Heap \<Rightarrow> Fatal + (AllocationResult \<times> 'sp Heap)"

text \<open>
  Modelled from the spec: \<open>HeapObject::map\<close> is not in this file. It reads the word at
  the address of the object.
\<close>

definition HeapObject_map :: "'sp Heap \<Rightarrow> Address \<Rightarrow> Object" where
  "HeapObject_map h a = memory h a"

section \<open>Copying fixed arrays\<close>

text \<open>\<open>Heap::CopyFixedArray\<close> and \<open>Heap::CopyFixedDoubleArray\<close> (lines 209-218).\<close>

definition CopyFixedArray :: "'sp Externals \<Rightarrow> Address \<Rightarrow> 'sp Heap \<Rightarrow> Fatal + (AllocationResult \<times> 'sp Heap)" where
  "CopyFixedArray ext src h =
     (if FixedArrayBase_length ext (memory h) src = 0 then Inr (Success src, h)
      else CopyFixedArrayWithMap ext src (HeapObject_map h src) h)"

definition CopyFixedDoubleArray :: "'sp Externals \<Rightarrow> Address \<Rightarrow> 'sp Heap \<Rightarrow> Fatal + (AllocationResult \<times> 'sp Heap)" where
  "CopyFixedDoubleArray ext src h =
     (if FixedArrayBase_length ext (memory h) src = 0 then Inr (Success src, h)
      else CopyFixedDoubleArrayWithMap ext src (HeapObject_map h src) h)"

section \<open>Instrumentation hooks\<close>

text \<open>
  \<open>UpdateAllocationsHash(uint32_t)\<close> (lines 353-360): the low half is mixed in first,
  then the high half.
\<close>

definition UpdateAllocationsHash_value :: "'sp Externals \<Rightarrow> 32 word \<Rightarrow> 'sp Heap \<Rightarrow> 'sp Heap" where
  "UpdateAllocationsHash_value ext v h =
     (let c1 = (ucast v :: 16 word);
          c2 = (ucast (drop_bit 16 v) :: 16 word);
          h1 = h\<lparr>raw_allocations_hash := AddCharacterCore ext (raw_allocations_hash h) c1\<rparr>
      in h1\<lparr>raw_allocations_hash := AddCharacterCore ext (raw_allocations_hash h1) c2\<rparr>)"

text \<open>
  \<open>UpdateAllocationsHash(HeapObject*)\<close> (lines 339-350). The 32-bit value that it folds
  is the offset of the object in its chunk, or-ed with the identity of the owning space
  shifted by \<open>kPageSizeBits\<close>.
\<close>

definition object_hash_value :: "Config \<Rightarrow> 'sp Heap \<Rightarrow> Address \<Rightarrow> 32 word" where
  "object_hash_value cfg h object_address =
     (let memory_chunk = Page_FromAddress cfg object_address;
          allocation_space = owner_identity (chunks h memory_chunk)
      in (ucast (object_address - memory_chunk) :: 32 word)
           OR push_bit (kPageSizeBits cfg) (AllocationSpace_uint32 allocation_space))"

definition UpdateAllocationsHash_object :: "Config \<Rightarrow> 'sp Externals \<Rightarrow> Address \<Rightarrow> 'sp Heap \<Rightarrow> 'sp Heap" where
  "UpdateAllocationsHash_object cfg ext object h =
     UpdateAllocationsHash_value ext (object_hash_value cfg h object) h"

text \<open>
  \<open>MonotonicallyIncreasingTimeInMs\<close>, \<open>PrintAllocationsHash\<close> and \<open>PrintStack\<close> are
  recorded as what they do to the outside: a request to the clock, a printed digest
  (the allocation count and the raw hash it is computed from), a printed stack.
\<close>

definition MonotonicallyIncreasingTimeInMs :: "'sp Heap \<Rightarrow> 'sp Heap" where
  "MonotonicallyIncreasingTimeInMs h = h\<lparr>time_requests := Suc (time_requests h)\<rparr>"

definition PrintAllocationsHash :: "'sp Heap \<Rightarrow> 'sp Heap" where
  "PrintAllocationsHash h =
     h\<lparr>printed_digests := printed_digests h @ [(allocations_count h, raw_allocations_hash h)]\<rparr>"

definition PrintStack :: "'sp Heap \<Rightarrow> 'sp Heap" where
  "PrintStack h = h\<lparr>printed_stacks := Suc (printed_stacks h)\<rparr>"

text \<open>
  \<open>allocations_count_ % FLAG_dump_allocations_digest_at_alloc == 0\<close>, followed by the
  print: the count is a \<open>uint32_t\<close>, so the flag is converted to \<open>uint32_t\<close>; a zero
  divisor stops the process.
\<close>

definition dump_digest_if_due :: "Config \<Rightarrow> 'sp Heap \<Rightarrow> Fatal + 'sp Heap" where
  "dump_digest_if_due cfg h =
     (let d = (word_of_int (FLAG_dump_allocations_digest_at_alloc cfg) :: 32 word)
      in if d = 0 then Inl Division_by_zero
         else if allocations_count h mod d = 0 then Inr (PrintAllocationsHash h)
         else Inr h)"

text \<open>
  \<open>Heap::OnAllocationEvent\<close> (lines 283-308) and \<open>Heap::OnMoveEvent\<close> (lines 311-336).
  The first line of \<open>OnAllocationEvent\<close> below records the call itself in \<open>hook_calls\<close>.
\<close>

definition OnAllocationEvent :: "Config \<Rightarrow> 'sp Externals \<Rightarrow> Address \<Rightarrow> int \<Rightarrow> 'sp Heap \<Rightarrow> Fatal + 'sp Heap" where
  "OnAllocationEvent cfg ext object size_in_bytes h =
     (let h0 = h\<lparr>hook_calls := hook_calls h @ [(object, size_in_bytes)]\<rparr>;
          h1 = (if is_tracking_allocations h0
                then h0\<lparr>profiler_allocation_events :=
                          profiler_allocation_events h0 @ [(object, size_in_bytes)]\<rparr>
                else h0)
      in case (if FLAG_verify_predictable cfg
               then (let h2 = h1\<lparr>allocations_count := allocations_count h1 + 1\<rparr>;
                         h3 = MonotonicallyIncreasingTimeInMs h2;
                         h4 = UpdateAllocationsHash_object cfg ext object h3;
                         h5 = UpdateAllocationsHash_value ext (word_of_int size_in_bytes) h4
                     in dump_digest_if_due cfg h5)
               else Inr h1) of
           Inl e \<Rightarrow> Inl e
         | Inr h6 \<Rightarrow>
             if FLAG_trace_allocation_stack_interval cfg > 0
             then (let h7 = (if \<not> FLAG_verify_predictable cfg
                             then h6\<lparr>allocations_count := allocations_count h6 + 1\<rparr>
                             else h6)
                   in if allocations_count h7
                           mod (word_of_int (FLAG_trace_allocation_stack_interval cfg) :: 32 word) = 0
                      then Inr (PrintStack h7)
                      else Inr h7)
             else Inr h6)"

definition OnMoveEvent :: "Config \<Rightarrow> 'sp Externals \<Rightarrow> Address \<Rightarrow> Address \<Rightarrow> int \<Rightarrow> 'sp Heap \<Rightarrow> Fatal + 'sp Heap" where
  "OnMoveEvent cfg ext target source size_in_bytes h =
     (let h1 = (if is_tracking_object_moves h
                then h\<lparr>profiler_move_events :=
                         profiler_move_events h @ [(source, target, size_in_bytes)]\<rparr>
                else h);
          h2 = (if IsSharedFunctionInfo ext (memory h1) target \<and> is_logging_code_events h1
                then h1\<lparr>logger_move_events := logger_move_events h1 @ [(source, target)]\<rparr>
                else h1)
      in if FLAG_verify_predictable cfg
         then (let h3 = h2\<lparr>allocations_count := allocations_count h2 + 1\<rparr>;
                   h4 = MonotonicallyIncreasingTimeInMs h3;
                   h5 = UpdateAllocationsHash_object cfg ext source h4;
                   h6 = UpdateAllocationsHash_object cfg ext target h5;
                   h7 = UpdateAllocationsHash_value ext (word_of_int size_in_bytes) h6
               in dump_digest_if_due cfg h7)
         else Inr h2)"

section \<open>The allocation dispatcher\<close>

text \<open>
  \<open>always_allocate()\<close> is declared in \<open>heap.h\<close>: some \<open>AlwaysAllocateScope\<close> is open,
  that is, the counter that the scopes increment and decrement (lines 593-600) is not
  zero.
\<close>

definition always_allocate :: "'sp Heap \<Rightarrow> bool" where
  "always_allocate h = (always_allocate_scope_count h \<noteq> 0)"

text \<open>
  The \<open>#ifdef DEBUG\<close> block of \<open>AllocateRaw\<close> (lines 229-236). The result \<open>Some r\<close> is
  the early \<open>return r\<close>. The timeout is decremented only when the two tests before it
  hold; the two counters are incremented when the block does not return.
\<close>

definition AllocateRaw_debug_block :: "Config \<Rightarrow> AllocationSpace \<Rightarrow> 'sp Heap \<Rightarrow> AllocationResult option \<times> 'sp Heap" where
  "AllocateRaw_debug_block cfg space h =
     (if \<not> DEBUG cfg then (None, h)
      else (let count = (\<lambda>s. s\<lparr>objs_since_last_full := objs_since_last_full s + 1,
                                objs_since_last_young := objs_since_last_young s + 1\<rparr>)
            in if FLAG_gc_interval cfg \<ge> 0 \<and> \<not> always_allocate h
               then (let h1 = h\<lparr>allocation_timeout := allocation_timeout h - 1\<rparr>
                     in if allocation_timeout h \<le> 0 then (Some (Retry space), h1)
                        else (None, count h1))
               else (None, count h)))"

text \<open>The condition under which that block returns \<open>Retry(space)\<close>.\<close>

definition allocation_timeout_fires :: "Config \<Rightarrow> 'sp Heap \<Rightarrow> bool" where
  "allocation_timeout_fires cfg h =
     (DEBUG cfg \<and> FLAG_gc_interval cfg \<ge> 0 \<and> \<not> always_allocate h \<and> allocation_timeout h \<le> 0)"

text \<open>The three \<open>DCHECK\<close>s at the entry of \<open>AllocateRaw\<close>.\<close>

definition allocation_allowed :: "'sp Heap \<Rightarrow> bool" where
  "allocation_allowed h =
     (allow_handle_allocation h \<and> allow_heap_allocation h \<and> gc_state h = NOT_IN_GC)"

text \<open>
  \<open>if (allocation.To(&object)) OnAllocationEvent(object, size_in_bytes); return allocation;\<close>
\<close>

definition notify_and_return :: "Config \<Rightarrow> 'sp Externals \<Rightarrow> int \<Rightarrow> AllocationResult \<Rightarrow> 'sp Heap \<Rightarrow> Fatal + (AllocationResult \<times> 'sp Heap)" where
  "notify_and_return cfg ext size_in_bytes allocation h =
     (case allocation of
        Success object \<Rightarrow>
          (case OnAllocationEvent cfg ext object size_in_bytes h of
             Inl e \<Rightarrow> Inl e
           | Inr h' \<Rightarrow> Inr (allocation, h'))
      | Retry _ \<Rightarrow> Inr (allocation, h))"

text \<open>
  The allocation in the old generation (lines 253-274), after a large young request was
  redirected.
\<close>

definition AllocateRaw_old_generation :: "Config \<Rightarrow> 'sp Externals \<Rightarrow> int \<Rightarrow> AllocationSpace \<Rightarrow> AllocationAlignment \<Rightarrow> bool \<Rightarrow> 'sp Heap \<Rightarrow> Fatal + (AllocationResult \<times> 'sp Heap)" where
  "AllocateRaw_old_generation cfg ext size_in_bytes space alignment large_object h =
     (case space of
        OLD_SPACE \<Rightarrow>
          if large_object
          then (let (allocation, s) = LargeObjectSpace_AllocateRaw ext size_in_bytes NOT_EXECUTABLE (lo_space h)
                in Inr (allocation, h\<lparr>lo_space := s\<rparr>))
          else (let (allocation, s) = PagedSpace_AllocateRaw ext size_in_bytes alignment (old_space h)
                in Inr (allocation, h\<lparr>old_space := s\<rparr>))
      | CODE_SPACE \<Rightarrow>
          if size_in_bytes \<le> PagedSpace_AreaSize ext (code_space h)
          then (let (allocation, s) = PagedSpace_AllocateRawUnaligned ext size_in_bytes (code_space h)
                in Inr (allocation, h\<lparr>code_space := s\<rparr>))
          else (let (allocation, s) = LargeObjectSpace_AllocateRaw ext size_in_bytes EXECUTABLE (lo_space h)
                in Inr (allocation, h\<lparr>lo_space := s\<rparr>))
      | LO_SPACE \<Rightarrow>
          if DEBUG cfg \<and> \<not> large_object then Inl DCHECK_failed
          else (let (allocation, s) = LargeObjectSpace_AllocateRaw ext size_in_bytes NOT_EXECUTABLE (lo_space h)
                in Inr (allocation, h\<lparr>lo_space := s\<rparr>))
      | MAP_SPACE \<Rightarrow>
          (let (allocation, s) = PagedSpace_AllocateRawUnaligned ext size_in_bytes (map_space h)
           in Inr (allocation, h\<lparr>map_space := s\<rparr>))
      | NEW_SPACE \<Rightarrow> Inl UNREACHABLE)"

text \<open>\<open>Heap::AllocateRaw(size_in_bytes, space, alignment)\<close> (lines 224-280).\<close>

definition AllocateRaw :: "Config \<Rightarrow> 'sp Externals \<Rightarrow> int \<Rightarrow> AllocationSpace \<Rightarrow> AllocationAlignment \<Rightarrow> 'sp Heap \<Rightarrow> Fatal + (AllocationResult \<times> 'sp Heap)" where
  "AllocateRaw cfg ext size_in_bytes space alignment h =
     (if DEBUG cfg \<and> \<not> allow_handle_allocation h then Inl DCHECK_failed
      else if DEBUG cfg \<and> \<not> allow_heap_allocation h then Inl DCHECK_failed
      else if DEBUG cfg \<and> gc_state h \<noteq> NOT_IN_GC then Inl DCHECK_failed
      else (case AllocateRaw_debug_block cfg space h of
              (Some r, h0) \<Rightarrow> Inr (r, h0)
            | (None, h0) \<Rightarrow>
                (let large_object = (size_in_bytes > kMaxRegularHeapObjectSize cfg)
                 in if space = NEW_SPACE \<and> \<not> large_object
                    then (let (allocation, s) = NewSpace_AllocateRaw ext size_in_bytes alignment (new_space h0)
                          in notify_and_return cfg ext size_in_bytes allocation (h0\<lparr>new_space := s\<rparr>))
                    else (let space1 = (if space = NEW_SPACE then LO_SPACE else space)
                          in case AllocateRaw_old_generation cfg ext size_in_bytes space1 alignment large_object h0 of
                               Inl e \<Rightarrow> Inl e
                             | Inr (allocation, h1) \<Rightarrow>
                                 notify_and_return cfg ext size_in_bytes allocation h1))))"

section \<open>External strings\<close>

text \<open>
  \<open>Heap::FinalizeExternalString\<close> (lines 368-380).
  \<open>string\<close> is the address of the string object; the resource pointer is the raw word at
  \<open>string + ExternalString::kResourceOffset\<close>. \<open>Dispose()\<close> belongs to the embedder: the
  model records that it was called on the resource.
\<close>

definition FinalizeExternalString :: "Config \<Rightarrow> 'sp Externals \<Rightarrow> Address \<Rightarrow> 'sp Heap \<Rightarrow> Fatal + 'sp Heap" where
  "FinalizeExternalString cfg ext string h =
     (if DEBUG cfg \<and> \<not> IsExternalString ext (memory h) string then Inl DCHECK_failed
      else (let resource_addr = string + kResourceOffset cfg
            in if resource_field h resource_addr \<noteq> 0
               then Inr (h\<lparr>disposed := disposed h @ [resource_field h resource_addr],
                          resource_field := (resource_field h)(resource_addr := 0)\<rparr>)
               else Inr h))"

section \<open>Recording the elements of a fixed array\<close>

text \<open>
  Modelled from the spec: \<open>FixedArray::RawFieldOfElementAt\<close> and \<open>FixedArray::get\<close> are
  not in this file. The slot of element \<open>index\<close> lies \<open>index\<close> words after the array's
  header, and the element is the tagged word stored in its slot.
\<close>

definition RawFieldOfElementAt :: "Config \<Rightarrow> Address \<Rightarrow> int \<Rightarrow> Address" where
  "RawFieldOfElementAt cfg array index =
     array + kFixedArrayHeaderSize cfg + word_of_int index * kPointerSize"

definition FixedArray_get :: "Config \<Rightarrow> 'sp Heap \<Rightarrow> Address \<Rightarrow> int \<Rightarrow> Object" where
  "FixedArray_get cfg h array index = memory h (RawFieldOfElementAt cfg array index)"

text \<open>
  \<open>Heap::RecordFixedArrayElements\<close> (lines 442-449): first its \<open>for\<close> loop, from the
  index \<open>i\<close> on, then the function.
\<close>

function RecordFixedArrayElements_loop :: "Config \<Rightarrow> Address \<Rightarrow> int \<Rightarrow> int \<Rightarrow> int \<Rightarrow> 'sp Heap \<Rightarrow> Fatal + 'sp Heap" where
  "RecordFixedArrayElements_loop cfg array offset len i h =
     (if i < len
      then (case InNewSpace cfg h (FixedArray_get cfg h array (offset + i)) of
              Inl e \<Rightarrow> Inl e
            | Inr young \<Rightarrow>
                if \<not> young then RecordFixedArrayElements_loop cfg array offset len (i + 1) h
                else RecordFixedArrayElements_loop cfg array offset len (i + 1)
                       (StoreBuffer_InsertEntry h (RawFieldOfElementAt cfg array (offset + i))))
      else Inr h)"
  by pat_completeness auto
termination
  by (relation "measure (\<lambda>(cfg, array, offset, len, i, h). nat (len - i))") auto

declare RecordFixedArrayElements_loop.simps [simp del]

definition RecordFixedArrayElements :: "Config \<Rightarrow> Address \<Rightarrow> int \<Rightarrow> int \<Rightarrow> 'sp Heap \<Rightarrow> Fatal + 'sp Heap" where
  "RecordFixedArrayElements cfg array offset len h =
     (case InNewSpace cfg h (HeapObject array) of
        Inl e \<Rightarrow> Inl e
      | Inr array_new \<Rightarrow>
          if array_new then Inr h
          else RecordFixedArrayElements_loop cfg array offset len 0 h)"

section \<open>Finding an allocation memento\<close>

text \<open>\<open>Heap::NewSpaceTop\<close> (line 382).\<close>

definition NewSpaceTop :: "'sp Externals \<Rightarrow> 'sp Heap \<Rightarrow> Address" where
  "NewSpaceTop ext h = NewSpace_top ext (new_space h)"

text \<open>
  Modelled from the spec: \<open>AllocationMemento::IsValid\<close> is not in this file. It
  re-validates the payload of the memento, the word that follows the memento's map
  word; which payloads are valid is the parameter \<open>payload_IsValid\<close>.
\<close>

definition AllocationMemento_IsValid :: "'sp Externals \<Rightarrow> 'sp Heap \<Rightarrow> Address \<Rightarrow> bool" where
  "AllocationMemento_IsValid ext h memento =
     payload_IsValid ext (memory h) (memory h (memento + kPointerSize))"

text \<open>The condition of the \<open>DCHECK\<close> in the \<open>kForRuntime\<close> case.\<close>

definition FindAllocationMemento_dcheck :: "Config \<Rightarrow> Address \<Rightarrow> Address \<Rightarrow> bool" where
  "FindAllocationMemento_dcheck cfg memento_address top_address =
     (memento_address = top_address \<or> memento_address + kPointerSize \<le> top_address
      \<or> \<not> Page_OnSamePage cfg memento_address (top_address - 1))"

text \<open>
  The \<open>switch (mode)\<close> at the end of \<open>FindAllocationMemento\<close> (lines 498-518).
  \<open>IsValid\<close> is evaluated, and the payload loaded, only when the candidate is not at
  the top.
\<close>

definition FindAllocationMemento_switch :: "FindMementoMode \<Rightarrow> Config \<Rightarrow> 'sp Externals \<Rightarrow> Address \<Rightarrow> Address option \<Rightarrow> 'sp Heap \<Rightarrow> (Fatal + Address option) \<times> Address list" where
  "FindAllocationMemento_switch mode cfg ext memento_address memento_candidate h =
     (case mode of
        kForGC \<Rightarrow> (Inr memento_candidate, [memento_address])
      | kForRuntime \<Rightarrow>
          if memento_candidate = None then (Inr None, [memento_address])
          else (let top_address = NewSpaceTop ext h
                in if DEBUG cfg \<and> \<not> FindAllocationMemento_dcheck cfg memento_address top_address
                   then (Inl DCHECK_failed, [memento_address])
                   else if memento_address \<noteq> top_address
                   then (if AllocationMemento_IsValid ext h memento_address
                         then (Inr memento_candidate,
                               [memento_address, memento_address + kPointerSize])
                         else (Inr None, [memento_address, memento_address + kPointerSize]))
                   else (Inr None, [memento_address])))"

text \<open>
  \<open>FindAllocationMemento<mode>(map, object)\<close> (lines 460-519). The first component of
  the result is the outcome: the memento pointer (\<open>None\<close> for \<open>nullptr\<close>), or the failed
  \<open>DCHECK\<close> that stopped the process. The second component lists the addresses of the
  words of the candidate memento that were loaded from the heap, in the order of the
  loads. The candidate is \<open>HeapObject::FromAddress(memento_address)\<close>, a pointer that is
  not null.
\<close>

definition FindAllocationMemento :: "FindMementoMode \<Rightarrow> Config \<Rightarrow> 'sp Externals \<Rightarrow> Object \<Rightarrow> Address \<Rightarrow> 'sp Heap \<Rightarrow> (Fatal + Address option) \<times> Address list" where
  "FindAllocationMemento mode cfg ext map_arg object h =
     (let object_address = object;
          memento_address = object_address + word_of_int (SizeFromMap ext (memory h) map_arg object);
          last_memento_word_address = memento_address + kPointerSize
      in if \<not> Page_OnSamePage cfg object_address last_memento_word_address then (Inr None, [])
         else (let candidate = memento_address;
                   candidate_map = HeapObject_map h candidate
               in if candidate_map \<noteq> HeapObject (allocation_memento_map h)
                  then (Inr None, [memento_address])
                  else (let object_page = chunks h (Page_FromAddress cfg object_address)
                        in if IsFlagSet object_page NEW_SPACE_BELOW_AGE_MARK
                           then (let age_mark = owner_age_mark object_page
                                 in if \<not> chunk_Contains object_page age_mark
                                    then (Inr None, [memento_address])
                                    else if object_address < age_mark
                                    then (Inr None, [memento_address])
                                    else FindAllocationMemento_switch mode cfg ext
                                           memento_address (Some candidate) h)
                           else FindAllocationMemento_switch mode cfg ext
                                  memento_address (Some candidate) h)))"

text \<open>
  The address at which a memento of \<open>object\<close> would start, and the outcome of the test
  against the age mark: on a page flagged \<open>NEW_SPACE_BELOW_AGE_MARK\<close> the search goes
  on only if the page contains the age mark and the object does not lie below it.
\<close>

definition candidate_memento_address :: "'sp Externals \<Rightarrow> 'sp Heap \<Rightarrow> Object \<Rightarrow> Address \<Rightarrow> Address" where
  "candidate_memento_address ext h map_arg object =
     object + word_of_int (SizeFromMap ext (memory h) map_arg object)"

definition age_mark_check :: "Config \<Rightarrow> 'sp Heap \<Rightarrow> Address \<Rightarrow> bool" where
  "age_mark_check cfg h object =
     (let object_page = chunks h (Page_FromAddress cfg object)
      in IsFlagSet object_page NEW_SPACE_BELOW_AGE_MARK \<longrightarrow>
           chunk_Contains object_page (owner_age_mark object_page)
           \<and> owner_age_mark object_page \<le> object)"

section \<open>Replaying a sequence of events\<close>

text \<open>
  A run of the instrumentation is a sequence of allocation events \<open>(object, size)\<close> and
  move events \<open>(target, source, size)\<close>, delivered to \<open>OnAllocationEvent\<close> and
  \<open>OnMoveEvent\<close> in order.
\<close>

datatype HeapEvent = AllocationEvent Address int | MoveEvent Address Address int

fun deliver_event :: "Config \<Rightarrow> 'sp Externals \<Rightarrow> HeapEvent \<Rightarrow> 'sp Heap \<Rightarrow> Fatal + 'sp Heap" where
  "deliver_event cfg ext (AllocationEvent object size_in_bytes) h =
     OnAllocationEvent cfg ext object size_in_bytes h"
| "deliver_event cfg ext (MoveEvent target source size_in_bytes) h =
     OnMoveEvent cfg ext target source size_in_bytes h"

fun run_events :: "Config \<Rightarrow> 'sp Externals \<Rightarrow> HeapEvent list \<Rightarrow> 'sp Heap \<Rightarrow> Fatal + 'sp Heap" where
  "run_events cfg ext [] h = Inr h"
| "run_events cfg ext (e # es) h =
     (case deliver_event cfg ext e h of
        Inl x \<Rightarrow> Inl x
      | Inr h' \<Rightarrow> run_events cfg ext es h')"

text \<open>
  What two runs must share: the offset of an object in its page and the identity of the
  space that owns the page, but not the address of the page.
\<close>

definition page_offset :: "Config \<Rightarrow> Address \<Rightarrow> Address" where
  "page_offset cfg a = a - Page_FromAddress cfg a"

definition space_of :: "Config \<Rightarrow> 'sp Heap \<Rightarrow> Address \<Rightarrow> AllocationSpace" where
  "space_of cfg h a = owner_identity (chunks h (Page_FromAddress cfg a))"

definition same_placement :: "Config \<Rightarrow> 'sp Heap \<Rightarrow> 'sp Heap \<Rightarrow> Address \<Rightarrow> Address \<Rightarrow> bool" where
  "same_placement cfg h1 h2 a1 a2 =
     (page_offset cfg a1 = page_offset cfg a2 \<and> space_of cfg h1 a1 = space_of cfg h2 a2)"

fun same_event :: "Config \<Rightarrow> 'sp Heap \<Rightarrow> 'sp Heap \<Rightarrow> HeapEvent \<Rightarrow> HeapEvent \<Rightarrow> bool" where
  "same_event cfg h1 h2 (AllocationEvent o1 s1) (AllocationEvent o2 s2) =
     (s1 = s2 \<and> same_placement cfg h1 h2 o1 o2)"
| "same_event cfg h1 h2 (MoveEvent t1 r1 s1) (MoveEvent t2 r2 s2) =
     (s1 = s2 \<and> same_placement cfg h1 h2 t1 t2 \<and> same_placement cfg h1 h2 r1 r2)"
| "same_event cfg h1 h2 _ _ = False"

text \<open>
  The spec's description of the fold, to compare the code with: a 32-bit value enters
  the rolling hash by two applications of the 16-bit mixing step, first on the low half
  and then on the high half; an allocation contributes the value of its object and then
  its size, a move the value of the source, then of the target, then the size.
\<close>

definition fold_value :: "'sp Externals \<Rightarrow> 32 word \<Rightarrow> 32 word \<Rightarrow> 32 word" where
  "fold_value ext running_hash v =
     AddCharacterCore ext (AddCharacterCore ext running_hash (ucast v)) (ucast (drop_bit 16 v))"

fun event_values :: "Config \<Rightarrow> 'sp Heap \<Rightarrow> HeapEvent \<Rightarrow> 32 word list" where
  "event_values cfg h (AllocationEvent object size_in_bytes) =
     [object_hash_value cfg h object, word_of_int size_in_bytes]"
| "event_values cfg h (MoveEvent target source size_in_bytes) =
     [object_hash_value cfg h source, object_hash_value cfg h target, word_of_int size_in_bytes]"

section \<open>A concrete heap\<close>

text \<open>
  An instance of the parameters, on which the definitions above are evaluated:
  pages of \<open>2 ^ 19\<close> bytes, the to-space page at \<open>0x80000\<close>, an old-space page at
  \<open>0x100000\<close>, and spaces that allocate by bumping a pointer.
\<close>

record BumpSpace =
  identity :: AllocationSpace
  bump_top :: Address
  bump_limit :: Address

text \<open>
  Modelled from the spec: the allocators of the spaces are not in this file. A space
  owns a bump pointer (top and limit) and never allocates past the limit; when it is
  exhausted the result is \<open>Retry\<close> naming the space.
\<close>

definition bump_allocate :: "int \<Rightarrow> BumpSpace \<Rightarrow> AllocationResult \<times> BumpSpace" where
  "bump_allocate size_in_bytes s =
     (if size_in_bytes \<le> uint (bump_limit s) - uint (bump_top s)
      then (Success (bump_top s), s\<lparr>bump_top := bump_top s + word_of_int size_in_bytes\<rparr>)
      else (Retry (identity s), s))"

text \<open>The mixing step of the one-at-a-time hash, on a 16-bit character.\<close>

definition one_at_a_time :: "32 word \<Rightarrow> 16 word \<Rightarrow> 32 word" where
  "one_at_a_time running_hash c =
     (let r1 = running_hash + ucast c;
          r2 = r1 + push_bit 10 r1
      in r2 XOR drop_bit 6 r2)"

definition example_config :: Config where
  "example_config =
     \<lparr>DEBUG = False, kPageSizeBits = 19, kMaxRegularHeapObjectSize = 507136,
      FLAG_gc_interval = 0, FLAG_verify_predictable = True,
      FLAG_dump_allocations_digest_at_alloc = 1, FLAG_trace_allocation_stack_interval = 0,
      kResourceOffset = 16, kFixedArrayHeaderSize = 16\<rparr>"

definition example_externals :: "BumpSpace Externals" where
  "example_externals =
     \<lparr>NewSpace_AllocateRaw = (\<lambda>n al. bump_allocate n),
      NewSpace_top = bump_top,
      PagedSpace_AllocateRaw = (\<lambda>n al. bump_allocate n),
      PagedSpace_AllocateRawUnaligned = bump_allocate,
      PagedSpace_AreaSize = (\<lambda>s. 500000),
      LargeObjectSpace_AllocateRaw = (\<lambda>n ex. bump_allocate n),
      SizeFromMap = (\<lambda>m mp ob. 32),
      FixedArrayBase_length = (\<lambda>m a. case m (a + 8) of Smi n \<Rightarrow> n | HeapObject _ \<Rightarrow> 0),
      IsExternalString = (\<lambda>m a. True),
      IsSharedFunctionInfo = (\<lambda>m a. False),
      payload_IsValid = (\<lambda>m p. IsHeapObject p),
      AddCharacterCore = one_at_a_time,
      CopyFixedArrayWithMap = (\<lambda>src mp h. Inr (Retry OLD_SPACE, h)),
      CopyFixedDoubleArrayWithMap = (\<lambda>src mp h. Inr (Retry OLD_SPACE, h))\<rparr>"

definition young_chunk :: MemoryChunk where
  "young_chunk =
     \<lparr>chunk_flags = {IN_TO_SPACE}, owner_identity = NEW_SPACE, owner_age_mark = 0x80100,
      chunk_Contains = (\<lambda>a. 0x80100 \<le> a \<and> a < 0x100000)\<rparr>"

definition old_chunk :: MemoryChunk where
  "old_chunk =
     \<lparr>chunk_flags = {}, owner_identity = OLD_SPACE, owner_age_mark = 0,
      chunk_Contains = (\<lambda>a. 0x100100 \<le> a \<and> a < 0x180000)\<rparr>"

text \<open>
  The heap holds a young object of 32 bytes at \<open>0x80200\<close>, followed by a memento at
  \<open>0x80220\<close> (map word and a site in old space), and an old array at \<open>0x100100\<close> with
  elements at \<open>0x100110, 0x100118, ...\<close>, of which element 3 points into the young
  generation. The external string at \<open>0x100400\<close> owns the resource \<open>0x7000\<close>.
\<close>

definition example_memory :: "Address \<Rightarrow> Object" where
  "example_memory =
     (\<lambda>a. Smi 0)(0x80220 := HeapObject 0x200100, 0x80228 := HeapObject 0x100800,
               0x100108 := Smi 10, 0x100128 := HeapObject 0x80200)"

definition example_heap :: "BumpSpace Heap" where
  "example_heap =
     \<lparr>gc_state = NOT_IN_GC, allow_handle_allocation = True, allow_heap_allocation = True,
      always_allocate_scope_count = 0, allocation_timeout = 0,
      objs_since_last_full = 0, objs_since_last_young = 0,
      new_space = \<lparr>identity = NEW_SPACE, bump_top = 0x80230, bump_limit = 0x100000\<rparr>,
      old_space = \<lparr>identity = OLD_SPACE, bump_top = 0x100900, bump_limit = 0x180000\<rparr>,
      code_space = \<lparr>identity = CODE_SPACE, bump_top = 0x180100, bump_limit = 0x200000\<rparr>,
      map_space = \<lparr>identity = MAP_SPACE, bump_top = 0x200200, bump_limit = 0x280000\<rparr>,
      lo_space = \<lparr>identity = LO_SPACE, bump_top = 0x400100, bump_limit = 0x800000\<rparr>,
      memory = example_memory,
      chunks = (\<lambda>p. if p = 0x80000 then young_chunk else old_chunk),
      allocation_memento_map = 0x200100,
      store_buffer = [],
      resource_field = (\<lambda>a. 0)(0x100410 := 0x7000),
      disposed = [],
      allocations_count = 0, raw_allocations_hash = 0,
      is_tracking_allocations = True, is_tracking_object_moves = False,
      is_logging_code_events = False,
      profiler_allocation_events = [], profiler_move_events = [], logger_move_events = [],
      printed_digests = [], printed_stacks = 0, time_requests = 0, hook_calls = []\<rparr>"

text \<open>
  The same heap with the to-space page flagged \<open>NEW_SPACE_BELOW_AGE_MARK\<close> and the age
  mark of its semispace at \<open>mark\<close>.
\<close>

definition aged_heap :: "Address \<Rightarrow> BumpSpace Heap" where
  "aged_heap mark =
     example_heap\<lparr>chunks :=
       (\<lambda>p. if p = 0x80000
            then young_chunk\<lparr>chunk_flags := {IN_TO_SPACE, NEW_SPACE_BELOW_AGE_MARK},
                             owner_age_mark := mark\<rparr>
            else old_chunk)\<rparr>"

section \<open>Auxiliary facts\<close>

lemma InNewSpace_eq:
  "InNewSpace cfg h object =
     (if DEBUG cfg \<and> \<not> InNewSpace_dcheck cfg h object then Inl DCHECK_failed
      else Inr (in_young_generation cfg h object))"
  by (simp add: InNewSpace_def)

lemma OnAllocationEvent_hook_calls:
  assumes "OnAllocationEvent cfg ext object n h = Inr h'"
  shows "hook_calls h' = hook_calls h @ [(object, n)]"
    and "profiler_allocation_events h' =
           profiler_allocation_events h @ (if is_tracking_allocations h then [(object, n)] else [])"
  using assms
  by (auto simp: OnAllocationEvent_def Let_def dump_digest_if_due_def PrintAllocationsHash_def
        PrintStack_def UpdateAllocationsHash_value_def UpdateAllocationsHash_object_def
        MonotonicallyIncreasingTimeInMs_def
      split: if_splits sum.splits)

lemma notify_and_return_hook_calls:
  assumes "notify_and_return cfg ext n allocation h = Inr (r, h')"
  shows "r = allocation"
    and "hook_calls h' = hook_calls h @ (case r of Success object \<Rightarrow> [(object, n)] | Retry _ \<Rightarrow> [])"
    and "profiler_allocation_events h' = profiler_allocation_events h @
           (case r of Success object \<Rightarrow> if is_tracking_allocations h then [(object, n)] else []
                    | Retry _ \<Rightarrow> [])"
  using assms
  by (auto simp: notify_and_return_def OnAllocationEvent_hook_calls
      split: AllocationResult.splits sum.splits)

lemma AllocateRaw_debug_block_observers:
  assumes "AllocateRaw_debug_block cfg space h = (r, h0)"
  shows "hook_calls h0 = hook_calls h"
    and "profiler_allocation_events h0 = profiler_allocation_events h"
    and "is_tracking_allocations h0 = is_tracking_allocations h"
    and "new_space h0 = new_space h" and "lo_space h0 = lo_space h"
  using assms
  by (auto simp: AllocateRaw_debug_block_def Let_def split: if_splits)

lemma AllocateRaw_old_generation_observers:
  assumes "AllocateRaw_old_generation cfg ext n space alignment large h = Inr (r, h1)"
  shows "hook_calls h1 = hook_calls h"
    and "profiler_allocation_events h1 = profiler_allocation_events h"
    and "is_tracking_allocations h1 = is_tracking_allocations h"
    and "new_space h1 = new_space h"
  using assms
  by (auto simp: AllocateRaw_old_generation_def Let_def
      split: if_splits AllocationSpace.splits prod.splits)

section \<open>The write barrier records old-to-young stores only\<close>

text \<open>
  C1. For every container, slot and value, \<open>RecordWrite(container, slot, value)\<close> appends
  the slot to the store buffer if and only if the value resides in the young
  generation, the container is a heap object and the container does not reside in the
  young generation; in every other combination the heap, and with it the store buffer,
  is left as it was. The call returns in every build without \<open>DEBUG\<close>; with \<open>DEBUG\<close> the
  process stops exactly when the \<open>DCHECK\<close> of one of the evaluated \<open>InNewSpace\<close> tests
  fails (a young object outside to-space while no collection is running).
\<close>

theorem RecordWrite_appends_iff:
  "RecordWrite cfg h object slot val =
     (if DEBUG cfg \<and> (\<not> InNewSpace_dcheck cfg h val
                       \<or> (in_young_generation cfg h val \<and> IsHeapObject object
                           \<and> \<not> InNewSpace_dcheck cfg h object))
      then Inl DCHECK_failed
      else Inr (h\<lparr>store_buffer :=
                    (if in_young_generation cfg h val \<and> IsHeapObject object
                        \<and> \<not> in_young_generation cfg h object
                     then store_buffer h @ [slot] else store_buffer h)\<rparr>))"
  by (simp add: RecordWrite_def InNewSpace_eq StoreBuffer_InsertEntry_def)

theorem RecordWrite_appends_iff_witness:
  "RecordWrite (example_config\<lparr>DEBUG := True\<rparr>) example_heap
       (HeapObject 0x100100) 0x100128 (HeapObject 0x80200)
     = Inr (example_heap\<lparr>store_buffer := [0x100128]\<rparr>)
   \<and> RecordWrite (example_config\<lparr>DEBUG := True\<rparr>) example_heap
       (HeapObject 0x80200) 0x80208 (HeapObject 0x80200)
     = Inr example_heap
   \<and> RecordWrite (example_config\<lparr>DEBUG := True\<rparr>) example_heap
       (Smi 1) 0x100128 (HeapObject 0x80200)
     = Inr example_heap
   \<and> RecordWrite (example_config\<lparr>DEBUG := True\<rparr>) example_heap
       (HeapObject 0x100100) 0x100128 (HeapObject 0x100100)
     = Inr example_heap"
  using RecordWrite_appends_iff [of "example_config\<lparr>DEBUG := True\<rparr>" example_heap
          "HeapObject 0x100100" "0x100128" "HeapObject 0x80200"]
    RecordWrite_appends_iff [of "example_config\<lparr>DEBUG := True\<rparr>" example_heap
          "HeapObject 0x80200" "0x80208" "HeapObject 0x80200"]
    RecordWrite_appends_iff [of "example_config\<lparr>DEBUG := True\<rparr>" example_heap
          "Smi 1" "0x100128" "HeapObject 0x80200"]
    RecordWrite_appends_iff [of "example_config\<lparr>DEBUG := True\<rparr>" example_heap
          "HeapObject 0x100100" "0x100128" "HeapObject 0x100100"]
  by (simp add: InNewSpace_dcheck_def MemoryChunk_InNewSpace_def IsFlagSet_def
        Page_FromAddress_def mask_eq_exp_minus_1
        example_config_def example_heap_def young_chunk_def old_chunk_def)

section \<open>The allocation hook fires once per successful allocation\<close>

text \<open>
  C3. For every size, space and alignment: an invocation of \<open>AllocateRaw\<close> that returns
  \<open>Success\<close> has called \<open>OnAllocationEvent\<close> exactly once, on the resulting object and
  with the requested size (and a profiler that tracks allocations has received exactly
  that one event); an invocation that returns \<open>Retry\<close> has not called it.
\<close>

theorem AllocateRaw_fires_hook_once:
  assumes "AllocateRaw cfg ext size_in_bytes space alignment h = Inr (r, h')"
  shows "hook_calls h' = hook_calls h @
           (case r of Success object \<Rightarrow> [(object, size_in_bytes)] | Retry _ \<Rightarrow> [])
         \<and> profiler_allocation_events h' = profiler_allocation_events h @
           (case r of Success object \<Rightarrow>
                        if is_tracking_allocations h then [(object, size_in_bytes)] else []
                    | Retry _ \<Rightarrow> [])"
proof (cases "AllocateRaw_debug_block cfg space h")
  case (Pair early h0)
  note obs = AllocateRaw_debug_block_observers [OF Pair]
  show ?thesis
  proof (cases early)
    case (Some r0)
    with assms Pair have "h' = h0" and "r = Retry space"
      by (auto simp: AllocateRaw_def AllocateRaw_debug_block_def Let_def split: if_splits)
    with obs show ?thesis by simp
  next
    case None
    show ?thesis
    proof (cases "space = NEW_SPACE \<and> \<not> size_in_bytes > kMaxRegularHeapObjectSize cfg")
      case True
      obtain allocation s where
        a: "NewSpace_AllocateRaw ext size_in_bytes alignment (new_space h0) = (allocation, s)"
        by (cases "NewSpace_AllocateRaw ext size_in_bytes alignment (new_space h0)")
      with assms Pair None True
      have "notify_and_return cfg ext size_in_bytes allocation (h0\<lparr>new_space := s\<rparr>) = Inr (r, h')"
        by (auto simp: AllocateRaw_def Let_def split: if_splits)
      from notify_and_return_hook_calls [OF this] obs show ?thesis
        by (simp split: AllocationResult.splits)
    next
      case False
      with assms Pair None
      obtain allocation h1 where
        og: "AllocateRaw_old_generation cfg ext size_in_bytes
               (if space = NEW_SPACE then LO_SPACE else space) alignment
               (size_in_bytes > kMaxRegularHeapObjectSize cfg) h0 = Inr (allocation, h1)"
        and nr: "notify_and_return cfg ext size_in_bytes allocation h1 = Inr (r, h')"
        by (auto simp: AllocateRaw_def Let_def split: if_splits sum.splits)
      from notify_and_return_hook_calls [OF nr] AllocateRaw_old_generation_observers [OF og] obs
      show ?thesis by (simp split: AllocationResult.splits)
    qed
  qed
qed

theorem AllocateRaw_fires_hook_once_witness:
  "(\<exists>h'. AllocateRaw example_config example_externals 64 NEW_SPACE kWordAligned example_heap
            = Inr (Success 0x80230, h')
          \<and> hook_calls h' = [(0x80230, 64)]
          \<and> profiler_allocation_events h' = [(0x80230, 64)])
   \<and> (\<exists>h'. AllocateRaw example_config example_externals 24 NEW_SPACE kWordAligned
              (example_heap\<lparr>new_space := \<lparr>identity = NEW_SPACE, bump_top = 0xFFFF0, bump_limit = 0x100000\<rparr>\<rparr>)
            = Inr (Retry NEW_SPACE, h')
          \<and> hook_calls h' = []
          \<and> profiler_allocation_events h' = [])"
proof -
  have "\<exists>h'. AllocateRaw example_config example_externals 64 NEW_SPACE kWordAligned example_heap
            = Inr (Success 0x80230, h')"
    by (simp add: AllocateRaw_def AllocateRaw_debug_block_def notify_and_return_def
          OnAllocationEvent_def dump_digest_if_due_def Let_def bump_allocate_def
          example_config_def example_externals_def example_heap_def)
  then obtain h1 where 1: "AllocateRaw example_config example_externals 64 NEW_SPACE kWordAligned example_heap
            = Inr (Success 0x80230, h1)" ..
  have "\<exists>h'. AllocateRaw example_config example_externals 24 NEW_SPACE kWordAligned
              (example_heap\<lparr>new_space := \<lparr>identity = NEW_SPACE, bump_top = 0xFFFF0, bump_limit = 0x100000\<rparr>\<rparr>)
            = Inr (Retry NEW_SPACE, h')"
    by (simp add: AllocateRaw_def AllocateRaw_debug_block_def notify_and_return_def
          Let_def bump_allocate_def
          example_config_def example_externals_def example_heap_def)
  then obtain h2 where 2: "AllocateRaw example_config example_externals 24 NEW_SPACE kWordAligned
              (example_heap\<lparr>new_space := \<lparr>identity = NEW_SPACE, bump_top = 0xFFFF0, bump_limit = 0x100000\<rparr>\<rparr>)
            = Inr (Retry NEW_SPACE, h2)" ..
  show ?thesis
    using 1 2 AllocateRaw_fires_hook_once [OF 1] AllocateRaw_fires_hook_once [OF 2]
    by (simp add: example_heap_def)
qed

section \<open>Finalizing an external string twice\<close>

text \<open>
  C9. \<open>FinalizeExternalString\<close> is idempotent: for every external string (and, in a
  build without \<open>DEBUG\<close>, for every string reference), the first call
  disposes the embedded resource if the pointer is not null and clears the pointer; a
  second call on the same string changes nothing. So \<open>Dispose()\<close> is invoked once across
  repeated calls when there was a resource, and never otherwise.
\<close>

theorem FinalizeExternalString_idempotent:
  assumes "IsExternalString ext (memory h) string \<or> \<not> DEBUG cfg"
  shows "\<exists>h1. FinalizeExternalString cfg ext string h = Inr h1
           \<and> disposed h1 = disposed h @
                (if resource_field h (string + kResourceOffset cfg) \<noteq> 0
                 then [resource_field h (string + kResourceOffset cfg)] else [])
           \<and> resource_field h1 (string + kResourceOffset cfg) = 0
           \<and> FinalizeExternalString cfg ext string h1 = Inr h1"
  using assms by (auto simp: FinalizeExternalString_def Let_def)

theorem FinalizeExternalString_idempotent_witness:
  "IsExternalString example_externals (memory example_heap) 0x100400
   \<and> (\<exists>h1. FinalizeExternalString (example_config\<lparr>DEBUG := True\<rparr>) example_externals
              0x100400 example_heap = Inr h1
           \<and> disposed h1 = [0x7000]
           \<and> resource_field h1 0x100410 = 0
           \<and> FinalizeExternalString (example_config\<lparr>DEBUG := True\<rparr>) example_externals
                0x100400 h1 = Inr h1)"
proof -
  have ext: "IsExternalString example_externals (memory example_heap) 0x100400"
    by (simp add: example_externals_def)
  then have pre: "IsExternalString example_externals (memory example_heap) 0x100400
      \<or> \<not> DEBUG (example_config\<lparr>DEBUG := True\<rparr>)" ..
  show ?thesis
    using ext FinalizeExternalString_idempotent [OF pre]
    by (simp add: example_config_def example_heap_def)
qed

section \<open>Copying an empty array\<close>

text \<open>
  C10. For every fixed array, plain or double, of length zero, \<open>CopyFixedArray\<close> and
  \<open>CopyFixedDoubleArray\<close> return the source array itself as a \<open>Success\<close> result and leave
  the heap unchanged; only for an array of another length the copy is delegated to
  \<open>CopyFixedArrayWithMap\<close> (\<open>CopyFixedDoubleArrayWithMap\<close>) with the array's own map.
\<close>

theorem CopyFixedArray_empty:
  "(FixedArrayBase_length ext (memory h) src = 0 \<longrightarrow>
      CopyFixedArray ext src h = Inr (Success src, h)
      \<and> CopyFixedDoubleArray ext src h = Inr (Success src, h))
   \<and> (FixedArrayBase_length ext (memory h) src \<noteq> 0 \<longrightarrow>
      CopyFixedArray ext src h = CopyFixedArrayWithMap ext src (HeapObject_map h src) h
      \<and> CopyFixedDoubleArray ext src h
          = CopyFixedDoubleArrayWithMap ext src (HeapObject_map h src) h)"
  by (simp add: CopyFixedArray_def CopyFixedDoubleArray_def)

theorem CopyFixedArray_empty_witness:
  "FixedArrayBase_length example_externals (memory example_heap) 0x100500 = 0
   \<and> CopyFixedArray example_externals 0x100500 example_heap = Inr (Success 0x100500, example_heap)
   \<and> CopyFixedDoubleArray example_externals 0x100500 example_heap = Inr (Success 0x100500, example_heap)
   \<and> FixedArrayBase_length example_externals (memory example_heap) 0x100100 = 10
   \<and> CopyFixedArray example_externals 0x100100 example_heap = Inr (Retry OLD_SPACE, example_heap)"
proof -
  have e: "FixedArrayBase_length example_externals (memory example_heap) 0x100500 = 0"
    by (simp add: example_externals_def example_heap_def example_memory_def)
  have n: "FixedArrayBase_length example_externals (memory example_heap) 0x100100 = 10"
    by (simp add: example_externals_def example_heap_def example_memory_def)
  have c: "CopyFixedArrayWithMap example_externals 0x100100 (HeapObject_map example_heap 0x100100) example_heap
             = Inr (Retry OLD_SPACE, example_heap)"
    by (simp add: example_externals_def)
  show ?thesis
    using e n c CopyFixedArray_empty [of example_externals example_heap "0x100500"]
      CopyFixedArray_empty [of example_externals example_heap "0x100100"]
    by simp
qed

section \<open>Large requests for the young generation\<close>

lemma AllocateRaw_debug_block_cases:
  "AllocateRaw_debug_block cfg space h =
     (if allocation_timeout_fires cfg h
      then (Some (Retry space), h\<lparr>allocation_timeout := allocation_timeout h - 1\<rparr>)
      else (None, snd (AllocateRaw_debug_block cfg space h)))"
  by (simp add: AllocateRaw_debug_block_def allocation_timeout_fires_def Let_def)

lemma AllocateRaw_debug_block_spaces:
  assumes "AllocateRaw_debug_block cfg space h = (r, h0)"
  shows "old_space h0 = old_space h" and "code_space h0 = code_space h"
    and "map_space h0 = map_space h"
  using assms
  by (auto simp: AllocateRaw_debug_block_def Let_def split: if_splits)

lemma notify_and_return_spaces:
  assumes "notify_and_return cfg ext n allocation h = Inr (r, h')"
  shows "new_space h' = new_space h" and "old_space h' = old_space h"
    and "code_space h' = code_space h" and "map_space h' = map_space h"
    and "lo_space h' = lo_space h"
  using assms
  by (auto simp: notify_and_return_def OnAllocationEvent_def Let_def dump_digest_if_due_def
        PrintAllocationsHash_def PrintStack_def UpdateAllocationsHash_value_def
        UpdateAllocationsHash_object_def MonotonicallyIncreasingTimeInMs_def
      split: AllocationResult.splits sum.splits if_splits)

text \<open>
  C2, as the code has it. For every size strictly greater than
  \<open>kMaxRegularHeapObjectSize\<close>, \<open>AllocateRaw(size, NEW_SPACE, alignment)\<close> is redirected to
  the large-object space: unless the allocation timeout of a \<open>DEBUG\<close> build fires, the
  result and the new state of the large-object space are those of
  \<open>lo_space_->AllocateRaw(size, NOT_EXECUTABLE)\<close>, and the young space (like the old,
  code and map spaces) is not touched. When the build defines \<open>DEBUG\<close>,
  \<open>FLAG_gc_interval\<close> is not negative, no \<open>AlwaysAllocateScope\<close> is open and the
  allocation timeout has run out, the call returns \<open>Retry(NEW_SPACE)\<close> instead and no
  space is touched.
\<close>

theorem AllocateRaw_large_young_request:
  assumes large: "size_in_bytes > kMaxRegularHeapObjectSize cfg"
  shows "AllocateRaw cfg ext size_in_bytes NEW_SPACE alignment h =
           (if DEBUG cfg \<and> \<not> allocation_allowed h then Inl DCHECK_failed
            else if allocation_timeout_fires cfg h
            then Inr (Retry NEW_SPACE, h\<lparr>allocation_timeout := allocation_timeout h - 1\<rparr>)
            else (let h0 = snd (AllocateRaw_debug_block cfg NEW_SPACE h);
                      (allocation, s) = LargeObjectSpace_AllocateRaw ext size_in_bytes
                                          NOT_EXECUTABLE (lo_space h)
                  in notify_and_return cfg ext size_in_bytes allocation (h0\<lparr>lo_space := s\<rparr>)))
         \<and> (\<forall>r h'. AllocateRaw cfg ext size_in_bytes NEW_SPACE alignment h = Inr (r, h') \<longrightarrow>
               new_space h' = new_space h \<and> old_space h' = old_space h
               \<and> code_space h' = code_space h \<and> map_space h' = map_space h
               \<and> (if allocation_timeout_fires cfg h
                   then r = Retry NEW_SPACE \<and> lo_space h' = lo_space h
                   else (r, lo_space h') = LargeObjectSpace_AllocateRaw ext size_in_bytes
                                            NOT_EXECUTABLE (lo_space h)))"
proof -
  obtain h0 where h0: "h0 = snd (AllocateRaw_debug_block cfg NEW_SPACE h)" by simp
  obtain allocation s where
    lo: "LargeObjectSpace_AllocateRaw ext size_in_bytes NOT_EXECUTABLE (lo_space h) = (allocation, s)"
    by (cases "LargeObjectSpace_AllocateRaw ext size_in_bytes NOT_EXECUTABLE (lo_space h)")
  have db: "AllocateRaw_debug_block cfg NEW_SPACE h =
             (if allocation_timeout_fires cfg h
              then (Some (Retry NEW_SPACE), h\<lparr>allocation_timeout := allocation_timeout h - 1\<rparr>)
              else (None, h0))"
    unfolding h0 by (rule AllocateRaw_debug_block_cases)
  have sp: "lo_space h0 = lo_space h" "new_space h0 = new_space h" "old_space h0 = old_space h"
    "code_space h0 = code_space h" "map_space h0 = map_space h"
    using AllocateRaw_debug_block_observers [of cfg NEW_SPACE h "fst (AllocateRaw_debug_block cfg NEW_SPACE h)" h0]
      AllocateRaw_debug_block_spaces [of cfg NEW_SPACE h "fst (AllocateRaw_debug_block cfg NEW_SPACE h)" h0]
    by (simp_all add: h0)
  have eq: "AllocateRaw cfg ext size_in_bytes NEW_SPACE alignment h =
           (if DEBUG cfg \<and> \<not> allocation_allowed h then Inl DCHECK_failed
            else if allocation_timeout_fires cfg h
            then Inr (Retry NEW_SPACE, h\<lparr>allocation_timeout := allocation_timeout h - 1\<rparr>)
            else notify_and_return cfg ext size_in_bytes allocation (h0\<lparr>lo_space := s\<rparr>))"
    using large lo
    by (simp add: AllocateRaw_def db allocation_allowed_def AllocateRaw_old_generation_def sp
        split: sum.splits)
  have part1: "AllocateRaw cfg ext size_in_bytes NEW_SPACE alignment h =
           (if DEBUG cfg \<and> \<not> allocation_allowed h then Inl DCHECK_failed
            else if allocation_timeout_fires cfg h
            then Inr (Retry NEW_SPACE, h\<lparr>allocation_timeout := allocation_timeout h - 1\<rparr>)
            else (let h0 = snd (AllocateRaw_debug_block cfg NEW_SPACE h);
                      (allocation, s) = LargeObjectSpace_AllocateRaw ext size_in_bytes
                                          NOT_EXECUTABLE (lo_space h)
                  in notify_and_return cfg ext size_in_bytes allocation (h0\<lparr>lo_space := s\<rparr>)))"
    using eq by (simp add: lo h0)
  have part2: "new_space h' = new_space h \<and> old_space h' = old_space h
               \<and> code_space h' = code_space h \<and> map_space h' = map_space h
               \<and> (if allocation_timeout_fires cfg h
                   then r = Retry NEW_SPACE \<and> lo_space h' = lo_space h
                   else (r, lo_space h') = LargeObjectSpace_AllocateRaw ext size_in_bytes
                                            NOT_EXECUTABLE (lo_space h))"
    if ret: "AllocateRaw cfg ext size_in_bytes NEW_SPACE alignment h = Inr (r, h')" for r h'
  proof (cases "allocation_timeout_fires cfg h")
    case True
    with ret eq show ?thesis by (auto split: if_splits)
  next
    case False
    with ret eq
    have nr: "notify_and_return cfg ext size_in_bytes allocation (h0\<lparr>lo_space := s\<rparr>) = Inr (r, h')"
      by (auto split: if_splits)
    from notify_and_return_spaces [OF nr] notify_and_return_hook_calls(1) [OF nr] sp lo False
    show ?thesis by simp
  qed
  from part1 part2 show ?thesis by blast
qed

text \<open>
  The claim as stated, for every large size, fails in a \<open>DEBUG\<close> build whose allocation
  timeout has run out: a request of 600000 bytes for the young generation returns
  \<open>Retry(NEW_SPACE)\<close> and leaves the large-object space as it was, although the
  large-object space would have served it.
\<close>

theorem AllocateRaw_large_young_request_counterexample:
  "kMaxRegularHeapObjectSize (example_config\<lparr>DEBUG := True\<rparr>) < 600000
   \<and> AllocateRaw (example_config\<lparr>DEBUG := True\<rparr>) example_externals 600000 NEW_SPACE
         kWordAligned example_heap
       = Inr (Retry NEW_SPACE, example_heap\<lparr>allocation_timeout := - 1\<rparr>)
   \<and> LargeObjectSpace_AllocateRaw example_externals 600000 NOT_EXECUTABLE (lo_space example_heap)
       = (Success 0x400100, \<lparr>identity = LO_SPACE, bump_top = 0x4928C0, bump_limit = 0x800000\<rparr>)"
  by (simp add: AllocateRaw_def AllocateRaw_debug_block_def always_allocate_def Let_def
        bump_allocate_def example_config_def example_externals_def example_heap_def)

theorem AllocateRaw_large_young_request_witness:
  "kMaxRegularHeapObjectSize example_config < 600000
   \<and> (\<exists>h'. AllocateRaw example_config example_externals 600000 NEW_SPACE kWordAligned example_heap
              = Inr (Success 0x400100, h')
            \<and> new_space h' = new_space example_heap
            \<and> lo_space h' = \<lparr>identity = LO_SPACE, bump_top = 0x4928C0, bump_limit = 0x800000\<rparr>)"
proof -
  have large: "kMaxRegularHeapObjectSize example_config < 600000"
    by (simp add: example_config_def)
  have lo: "LargeObjectSpace_AllocateRaw example_externals 600000 NOT_EXECUTABLE (lo_space example_heap)
       = (Success 0x400100, \<lparr>identity = LO_SPACE, bump_top = 0x4928C0, bump_limit = 0x800000\<rparr>)"
    by (simp add: bump_allocate_def example_externals_def example_heap_def)
  have nf: "\<not> allocation_timeout_fires example_config example_heap"
    by (simp add: allocation_timeout_fires_def example_config_def)
  have "\<exists>r h'. AllocateRaw example_config example_externals 600000 NEW_SPACE kWordAligned example_heap
            = Inr (r, h')"
    by (simp add: AllocateRaw_def AllocateRaw_debug_block_def notify_and_return_def
          AllocateRaw_old_generation_def
          OnAllocationEvent_def dump_digest_if_due_def Let_def bump_allocate_def
          example_config_def example_externals_def example_heap_def)
  then obtain r h1 where 1: "AllocateRaw example_config example_externals 600000 NEW_SPACE kWordAligned example_heap
            = Inr (r, h1)" by blast
  from AllocateRaw_large_young_request [OF large, of example_externals kWordAligned example_heap] 1 nf lo
  have "new_space h1 = new_space example_heap \<and> r = Success 0x400100
        \<and> lo_space h1 = \<lparr>identity = LO_SPACE, bump_top = 0x4928C0, bump_limit = 0x800000\<rparr>"
    by simp
  with 1 large show ?thesis by blast
qed

section \<open>Recording the young elements of an array\<close>

lemma in_young_generation_InsertEntry [simp]:
  "in_young_generation cfg (StoreBuffer_InsertEntry h s) object = in_young_generation cfg h object"
  by (cases object) (simp_all add: StoreBuffer_InsertEntry_def)

lemma InNewSpace_dcheck_InsertEntry [simp]:
  "InNewSpace_dcheck cfg (StoreBuffer_InsertEntry h s) object = InNewSpace_dcheck cfg h object"
  by (cases object) (simp_all add: InNewSpace_dcheck_def StoreBuffer_InsertEntry_def)

lemma FixedArray_get_InsertEntry [simp]:
  "FixedArray_get cfg (StoreBuffer_InsertEntry h s) array j = FixedArray_get cfg h array j"
  by (simp add: FixedArray_get_def StoreBuffer_InsertEntry_def)

lemma store_buffer_InsertEntry [simp]:
  "store_buffer (StoreBuffer_InsertEntry h s) = store_buffer h @ [s]"
  by (simp add: StoreBuffer_InsertEntry_def)

lemma InsertEntry_store_buffer_update [simp]:
  "(StoreBuffer_InsertEntry h s)\<lparr>store_buffer := xs\<rparr> = h\<lparr>store_buffer := xs\<rparr>"
  by (simp add: StoreBuffer_InsertEntry_def)

lemma RecordFixedArrayElements_loop_result:
  "RecordFixedArrayElements_loop cfg array offset len i h = Inr h' \<Longrightarrow>
   h' = h\<lparr>store_buffer := store_buffer h @
           map (RawFieldOfElementAt cfg array)
             (filter (\<lambda>j. in_young_generation cfg h (FixedArray_get cfg h array j))
                [offset + i..offset + len - 1])\<rparr>"
proof (induction cfg array offset len i h rule: RecordFixedArrayElements_loop.induct)
  case (1 cfg array offset len i h)
  show ?case
  proof (cases "i < len")
    case False
    with "1.prems" show ?thesis
      by (simp add: RecordFixedArrayElements_loop.simps [of cfg array offset len i h])
  next
    case True
    then have up: "[offset + i..offset + len - 1] = (offset + i) # [offset + (i + 1)..offset + len - 1]"
      by (simp add: upto_rec1 add.assoc)
    show ?thesis
    proof (cases "in_young_generation cfg h (FixedArray_get cfg h array (offset + i))")
      case False
      with True "1.prems"
      have nd: "InNewSpace cfg h (FixedArray_get cfg h array (offset + i)) = Inr False"
        and rec: "RecordFixedArrayElements_loop cfg array offset len (i + 1) h = Inr h'"
        by (auto simp: RecordFixedArrayElements_loop.simps [of cfg array offset len i h]
              InNewSpace_eq split: if_splits)
      from "1.IH"(1) [OF True nd _ rec] False show ?thesis
        by (simp add: up)
    next
      case young: True
      with True "1.prems"
      have nd: "InNewSpace cfg h (FixedArray_get cfg h array (offset + i)) = Inr True"
        and rec: "RecordFixedArrayElements_loop cfg array offset len (i + 1)
                    (StoreBuffer_InsertEntry h (RawFieldOfElementAt cfg array (offset + i))) = Inr h'"
        by (auto simp: RecordFixedArrayElements_loop.simps [of cfg array offset len i h]
              InNewSpace_eq split: if_splits)
      from "1.IH"(2) [OF True nd _ rec] young show ?thesis
        by (simp add: up)
    qed
  qed
qed

lemma RecordFixedArrayElements_loop_returns:
  "\<not> DEBUG cfg \<or> (\<forall>j \<in> set [offset + i..offset + len - 1].
                      InNewSpace_dcheck cfg h (FixedArray_get cfg h array j)) \<Longrightarrow>
   \<exists>h'. RecordFixedArrayElements_loop cfg array offset len i h = Inr h'"
proof (induction cfg array offset len i h rule: RecordFixedArrayElements_loop.induct)
  case (1 cfg array offset len i h)
  show ?case
  proof (cases "i < len")
    case False
    then show ?thesis
      by (simp add: RecordFixedArrayElements_loop.simps [of cfg array offset len i h])
  next
    case True
    then have up: "[offset + i..offset + len - 1] = (offset + i) # [offset + (i + 1)..offset + len - 1]"
      by (simp add: upto_rec1 add.assoc)
    from "1.prems" have ok: "\<not> (DEBUG cfg \<and> \<not> InNewSpace_dcheck cfg h (FixedArray_get cfg h array (offset + i)))"
      by (auto simp: up)
    then have nd: "InNewSpace cfg h (FixedArray_get cfg h array (offset + i))
                 = Inr (in_young_generation cfg h (FixedArray_get cfg h array (offset + i)))"
      by (simp add: InNewSpace_eq)
    show ?thesis
    proof (cases "in_young_generation cfg h (FixedArray_get cfg h array (offset + i))")
      case False
      from "1.prems" have "\<not> DEBUG cfg \<or> (\<forall>j \<in> set [offset + (i + 1)..offset + len - 1].
                      InNewSpace_dcheck cfg h (FixedArray_get cfg h array j))"
        by (auto simp: up)
      from "1.IH"(1) [OF True _ _ this] nd False True show ?thesis
        by (simp add: RecordFixedArrayElements_loop.simps [of cfg array offset len i h])
    next
      case young: True
      from "1.prems" have "\<not> DEBUG cfg \<or> (\<forall>j \<in> set [offset + (i + 1)..offset + len - 1].
                      InNewSpace_dcheck cfg
                        (StoreBuffer_InsertEntry h (RawFieldOfElementAt cfg array (offset + i)))
                        (FixedArray_get cfg
                           (StoreBuffer_InsertEntry h (RawFieldOfElementAt cfg array (offset + i))) array j))"
        by (auto simp: up)
      from "1.IH"(2) [OF True _ _ this] nd young True show ?thesis
        by (simp add: RecordFixedArrayElements_loop.simps [of cfg array offset len i h])
    qed
  qed
qed

text \<open>
  C8. For every array, offset and length, \<open>RecordFixedArrayElements(array, offset, length)\<close>
  leaves the store buffer unchanged when the array resides in the young generation;
  otherwise it appends exactly the slot addresses of the elements with index in
  \<open>[offset, offset + length)\<close> that hold a young-generation pointer, in increasing order
  of the index: one entry per such element, at that element's own slot, and none for
  the other elements. Nothing else in the heap changes. The call returns in every build
  without \<open>DEBUG\<close>, and in a \<open>DEBUG\<close> build whenever a collection is running.
\<close>

theorem RecordFixedArrayElements_records_young_elements:
  "(\<forall>h'. RecordFixedArrayElements cfg array offset len h = Inr h' \<longrightarrow>
      h' = h\<lparr>store_buffer := store_buffer h @
              (if in_young_generation cfg h (HeapObject array) then []
               else map (RawFieldOfElementAt cfg array)
                      (filter (\<lambda>j. in_young_generation cfg h (FixedArray_get cfg h array j))
                         [offset..offset + len - 1]))\<rparr>)
   \<and> (\<not> DEBUG cfg \<or> gc_state h \<noteq> NOT_IN_GC \<longrightarrow>
        (\<exists>h'. RecordFixedArrayElements cfg array offset len h = Inr h'))"
proof (intro conjI allI impI)
  fix h'
  assume r: "RecordFixedArrayElements cfg array offset len h = Inr h'"
  show "h' = h\<lparr>store_buffer := store_buffer h @
              (if in_young_generation cfg h (HeapObject array) then []
               else map (RawFieldOfElementAt cfg array)
                      (filter (\<lambda>j. in_young_generation cfg h (FixedArray_get cfg h array j))
                         [offset..offset + len - 1]))\<rparr>"
  proof (cases "in_young_generation cfg h (HeapObject array)")
    case True
    with r show ?thesis
      by (auto simp: RecordFixedArrayElements_def InNewSpace_eq split: if_splits)
  next
    case False
    with r have "RecordFixedArrayElements_loop cfg array offset len 0 h = Inr h'"
      by (auto simp: RecordFixedArrayElements_def InNewSpace_eq split: if_splits)
    from RecordFixedArrayElements_loop_result [OF this] False show ?thesis by simp
  qed
next
  assume a: "\<not> DEBUG cfg \<or> gc_state h \<noteq> NOT_IN_GC"
  then have "\<not> DEBUG cfg \<or> (\<forall>j \<in> set [offset + 0..offset + len - 1].
                      InNewSpace_dcheck cfg h (FixedArray_get cfg h array j))"
    by (auto simp: InNewSpace_dcheck_def)
  from RecordFixedArrayElements_loop_returns [OF this]
  obtain h1 where "RecordFixedArrayElements_loop cfg array offset len 0 h = Inr h1" by blast
  with a show "\<exists>h'. RecordFixedArrayElements cfg array offset len h = Inr h'"
    by (auto simp: RecordFixedArrayElements_def InNewSpace_eq InNewSpace_dcheck_def)
qed

theorem RecordFixedArrayElements_records_young_elements_witness:
  "\<not> DEBUG example_config
   \<and> RecordFixedArrayElements example_config 0x100100 0 10 example_heap
       = Inr (example_heap\<lparr>store_buffer := [0x100128]\<rparr>)
   \<and> RecordFixedArrayElements example_config 0x80200 0 10 example_heap = Inr example_heap"
proof -
  have d: "\<not> DEBUG example_config" by (simp add: example_config_def)
  have sb: "store_buffer example_heap = []" by (simp add: example_heap_def)
  have same: "example_heap\<lparr>store_buffer := []\<rparr> = example_heap"
    by (simp add: example_heap_def)
  have up: "[0..9] = [0,1,2,3,4,5,6,7,8,9::int]"
    by (simp add: upto.simps)
  have y1: "\<not> in_young_generation example_config example_heap (HeapObject 0x100100)"
    by (simp add: MemoryChunk_InNewSpace_def IsFlagSet_def
        Page_FromAddress_def mask_eq_exp_minus_1
        example_config_def example_heap_def young_chunk_def old_chunk_def)
  have y2: "in_young_generation example_config example_heap (HeapObject 0x80200)"
    by (simp add: MemoryChunk_InNewSpace_def IsFlagSet_def
        Page_FromAddress_def mask_eq_exp_minus_1
        example_config_def example_heap_def young_chunk_def old_chunk_def)
  have els: "map (RawFieldOfElementAt example_config 0x100100)
                      (filter (\<lambda>j. in_young_generation example_config example_heap
                                    (FixedArray_get example_config example_heap 0x100100 j))
                         [0..0 + 10 - 1]) = [0x100128]"
    by (simp add: up FixedArray_get_def RawFieldOfElementAt_def kPointerSize_def
        MemoryChunk_InNewSpace_def IsFlagSet_def
        Page_FromAddress_def mask_eq_exp_minus_1 example_memory_def
        example_config_def example_heap_def young_chunk_def old_chunk_def)
  from RecordFixedArrayElements_records_young_elements [of example_config "0x100100" 0 10 example_heap]
    RecordFixedArrayElements_records_young_elements [of example_config "0x80200" 0 10 example_heap]
    d y1 y2 els sb same
  show ?thesis by auto
qed

section \<open>Pages of machine addresses\<close>

lemma unat_word_of_int_size:
  assumes "0 \<le> sz" "sz < 2 ^ 31"
  shows "unat (word_of_int sz :: 64 word) = nat sz"
proof -
  have "(word_of_int sz :: 64 word) = of_nat (nat sz)" using assms by simp
  moreover have "nat sz < 2 ^ 64" using assms by (simp add: nat_less_iff)
  ultimately show ?thesis by (simp add: unat_of_nat)
qed

lemma unat_sum_cases:
  fixes a :: "64 word"
  assumes "n < 2 ^ 64"
  shows "unat (a + of_nat n) = (if unat a + n < 2 ^ 64 then unat a + n else unat a + n - 2 ^ 64)"
proof -
  have "unat (a + of_nat n) = (unat a + n) mod 2 ^ 64"
    using assms by (simp add: unat_word_ariths unat_of_nat)
  moreover have "unat a < 2 ^ 64" using unsigned_less [of a] by simp
  ultimately show ?thesis using assms
    by (auto simp: mod_if)
qed

lemma memento_no_wrap:
  fixes a :: "64 word" and sz :: int
  assumes k: "k \<le> 32" and sz: "0 \<le> sz" "sz < 2 ^ 31"
    and same: "unat a div 2 ^ k = unat (a + word_of_int sz + 8) div 2 ^ k"
  shows "unat a + nat sz + 8 < 2 ^ 64"
proof (rule ccontr)
  assume "\<not> unat a + nat sz + 8 < 2 ^ 64"
  then have big: "2 ^ 64 \<le> unat a + nat sz + 8" by simp
  have n: "nat sz + 8 < 2 ^ 64" "nat sz < 2 ^ 31" using sz by (simp_all add: nat_less_iff)
  have "a + word_of_int sz + 8 = a + of_nat (nat sz + 8)" using sz by (simp add: add.assoc)
  moreover have "unat (a + of_nat (nat sz + 8)) = unat a + (nat sz + 8) - 2 ^ 64"
    using unat_sum_cases [OF n(1), of a] big by (simp del: of_nat_add)
  ultimately have l: "unat (a + word_of_int sz + 8) = unat a + (nat sz + 8) - 2 ^ 64"
    by (simp only:)
  have abound: "unat a < 2 ^ 64" using unsigned_less [of a] by simp
  have lsmall: "unat (a + word_of_int sz + 8) < 2 ^ 31 + 8"
    using l n abound by simp
  have alarge: "2 ^ 64 - 2 ^ 31 - 8 \<le> unat a" using big n by simp
  have "(2::nat) ^ k \<le> 2 ^ 32" by (rule power_increasing) (use k in simp_all)
  then have "unat a div 2 ^ 32 \<le> unat a div 2 ^ k"
    by (intro div_le_mono2) simp_all
  moreover have "(2 ^ 64 - 2 ^ 31 - 8) div 2 ^ 32 \<le> unat a div (2 ^ 32 :: nat)"
    using alarge by (rule div_le_mono)
  moreover have "((2::nat) ^ 64 - 2 ^ 31 - 8) div 2 ^ 32 = 2 ^ 32 - 1" by simp
  ultimately have q1: "4294967295 \<le> unat a div 2 ^ k" by simp
  have "unat (a + word_of_int sz + 8) div 2 ^ k \<le> unat (a + word_of_int sz + 8)"
    by (rule div_le_dividend)
  with same have q2: "unat a div 2 ^ k \<le> unat (a + word_of_int sz + 8)" by (simp only:)
  from lsmall have q3: "unat (a + word_of_int sz + 8) < 2147483656" by simp
  from q1 q2 q3 show False by linarith
qed


lemma unat_add_small:
  fixes x i :: "64 word"
  assumes "unat x + unat i < 2 ^ 64"
  shows "unat (x + i) = unat x + unat i"
  using assms by (simp add: unat_word_ariths)

lemma aligned_word_same_page:
  fixes l i :: "64 word"
  assumes al: "8 dvd unat l" and i: "i < 8" and k: "3 \<le> k"
  shows "unat (l + i) div 2 ^ k = unat l div 2 ^ k"
proof -
  have ui: "unat i < 8" using i by (simp add: word_less_nat_alt)
  have lb: "unat l < 2 ^ 64" using unsigned_less [of l] by simp
  from al obtain q where q: "unat l = 8 * q" by (auto simp: dvd_def)
  with lb have "q < 2 ^ 61" by simp
  with q ui have "unat l + unat i < 2 ^ 64" by simp
  then have sum: "unat (l + i) = unat l + unat i" by (rule unat_add_small)
  from k obtain j where j: "k = 3 + j" by (auto simp: le_iff_add)
  have p: "(2::nat) ^ k = 8 * 2 ^ j" by (simp add: j power_add)
  have "(unat l + unat i) div 8 = q" using q ui by simp
  moreover have "unat l div 8 = q" using q by simp
  ultimately have "(unat l + unat i) div (8 * 2 ^ j) = unat l div (8 * 2 ^ j)"
    by (simp only: div_mult2_eq)
  then show ?thesis by (simp only: sum p)
qed

lemma memento_words_no_wrap:
  fixes a :: "64 word" and sz :: int
  assumes k: "k \<le> 32" and sz: "0 \<le> sz" "sz < 2 ^ 31"
    and same: "unat a div 2 ^ k = unat (a + word_of_int sz + 8) div 2 ^ k"
  shows "unat (a + word_of_int sz) = unat a + nat sz"
    and "unat (a + word_of_int sz + 8) = unat a + nat sz + 8"
proof -
  have nw: "unat a + nat sz + 8 < 2 ^ 64" by (rule memento_no_wrap [OF k sz same])
  have n: "nat sz < 2 ^ 64" using sz by (simp add: nat_less_iff)
  have w: "(word_of_int sz :: 64 word) = of_nat (nat sz)" using sz by simp
  show m: "unat (a + word_of_int sz) = unat a + nat sz"
    using unat_sum_cases [OF n, of a] nw by (simp add: w)
  have "unat (a + word_of_int sz) + unat (8 :: 64 word) < 2 ^ 64" using nw m by simp
  from unat_add_small [OF this] m
  show "unat (a + word_of_int sz + 8) = unat a + nat sz + 8" by simp
qed

lemma drop_bit_and_not_mask:
  fixes a :: "'a::len word"
  shows "drop_bit k (a AND NOT (mask k)) = drop_bit k a"
  by (rule bit_eqI) (auto simp: bit_simps dest: bit_imp_le_length)

lemma and_not_mask_push_drop:
  fixes a :: "'a::len word"
  shows "a AND NOT (mask k) = push_bit k (drop_bit k a)"
  by (rule bit_eqI) (auto simp: bit_simps)

lemma page_eq_iff:
  fixes a b :: "'a::len word"
  shows "a AND NOT (mask k) = b AND NOT (mask k) \<longleftrightarrow> unat a div 2 ^ k = unat b div 2 ^ k"
proof
  assume "a AND NOT (mask k) = b AND NOT (mask k)"
  then have "drop_bit k (a AND NOT (mask k)) = drop_bit k (b AND NOT (mask k))" by simp
  then have "drop_bit k a = drop_bit k b" by (simp only: drop_bit_and_not_mask)
  then have "unat (drop_bit k a) = unat (drop_bit k b)" by simp
  then have "drop_bit k (unat a) = drop_bit k (unat b)" by (simp only: unat_drop_bit_eq)
  then show "unat a div 2 ^ k = unat b div 2 ^ k" by (simp only: drop_bit_eq_div)
next
  assume "unat a div 2 ^ k = unat b div 2 ^ k"
  then have "drop_bit k (unat a) = drop_bit k (unat b)" by (simp only: drop_bit_eq_div)
  then have "unat (drop_bit k a) = unat (drop_bit k b)" by (simp only: unat_drop_bit_eq)
  then have "drop_bit k a = drop_bit k b" by (simp only: word_unat_eq_iff)
  then show "a AND NOT (mask k) = b AND NOT (mask k)" by (simp only: and_not_mask_push_drop)
qed

lemma Page_OnSamePage_iff:
  "Page_OnSamePage cfg a b \<longleftrightarrow>
     unat a div 2 ^ kPageSizeBits cfg = unat b div 2 ^ kPageSizeBits cfg"
  unfolding Page_OnSamePage_def Page_FromAddress_def by (rule page_eq_iff)

lemma Page_OnSamePage_between:
  assumes "Page_OnSamePage cfg a l" "unat a \<le> unat m" "unat m \<le> unat l"
  shows "Page_OnSamePage cfg a m"
proof -
  let ?p = "2 ^ kPageSizeBits cfg :: nat"
  have "unat a div ?p \<le> unat m div ?p" "unat m div ?p \<le> unat l div ?p"
    using assms(2,3) by (simp_all add: div_le_mono)
  with assms(1) show ?thesis by (simp add: Page_OnSamePage_iff)
qed

lemma FindAllocationMemento_eq:
  "FindAllocationMemento mode cfg ext mp object h =
     (let m = candidate_memento_address ext h mp object
      in if \<not> Page_OnSamePage cfg object (m + kPointerSize) then (Inr None, [])
         else if memory h m \<noteq> HeapObject (allocation_memento_map h) then (Inr None, [m])
         else if \<not> age_mark_check cfg h object then (Inr None, [m])
         else (case mode of
                 kForGC \<Rightarrow> (Inr (Some m), [m])
               | kForRuntime \<Rightarrow>
                   if DEBUG cfg \<and> \<not> FindAllocationMemento_dcheck cfg m (NewSpaceTop ext h)
                   then (Inl DCHECK_failed, [m])
                   else if m = NewSpaceTop ext h then (Inr None, [m])
                   else if AllocationMemento_IsValid ext h m
                   then (Inr (Some m), [m, m + kPointerSize])
                   else (Inr None, [m, m + kPointerSize])))"
  by (auto simp: FindAllocationMemento_def FindAllocationMemento_switch_def
        candidate_memento_address_def age_mark_check_def
        HeapObject_map_def Let_def not_le split: FindMementoMode.splits)

lemma FindAllocationMemento_reads:
  assumes "a \<in> set (snd (FindAllocationMemento mode cfg ext mp object h))"
  shows "Page_OnSamePage cfg object (candidate_memento_address ext h mp object + kPointerSize)
         \<and> (a = candidate_memento_address ext h mp object
              \<or> a = candidate_memento_address ext h mp object + kPointerSize)"
  using assms
  by (auto simp: FindAllocationMemento_eq Let_def split: if_splits FindMementoMode.splits)

lemmas example_defs =
  example_config_def example_externals_def example_heap_def example_memory_def
  young_chunk_def old_chunk_def

lemmas page_eval = Page_OnSamePage_def Page_FromAddress_def mask_eq_exp_minus_1

section \<open>The memento probe stays on the page of the object\<close>

text \<open>
  C4. For every object and type descriptor: if the last word of the candidate memento
  (the candidate address, that is the object's address plus its size, plus one word) is
  not on the same page as the object, \<open>FindAllocationMemento\<close> returns \<open>nullptr\<close> at once,
  without loading anything. And on every path, the one that ends in a failed \<open>DCHECK\<close>
  included, every byte of every word that it loads from the candidate memento (the map
  word, and in \<open>kForRuntime\<close> mode the payload word) lies on the page of the object. The second part is about objects as the heap
  holds them: a size in the non-negative range of \<open>int\<close>, object address and size
  multiples of the word size, and pages of at least one word and at most \<open>2 ^ 32\<close> bytes
  (the file asserts \<open>kSpaceTagSize + kPageSizeBits <= 32\<close>).
\<close>

theorem FindAllocationMemento_stays_on_page:
  "(\<not> Page_OnSamePage cfg object (candidate_memento_address ext h mp object + kPointerSize) \<longrightarrow>
      FindAllocationMemento mode cfg ext mp object h = (Inr None, []))
   \<and> (3 \<le> kPageSizeBits cfg \<and> kPageSizeBits cfg \<le> 32
        \<and> 0 \<le> SizeFromMap ext (memory h) mp object
        \<and> SizeFromMap ext (memory h) mp object < 2 ^ 31
        \<and> 8 dvd SizeFromMap ext (memory h) mp object \<and> 8 dvd unat object \<longrightarrow>
      (\<forall>a \<in> set (snd (FindAllocationMemento mode cfg ext mp object h)).
         \<forall>i < kPointerSize. Page_OnSamePage cfg object (a + i)))"
proof (intro conjI impI allI ballI)
  assume "\<not> Page_OnSamePage cfg object (candidate_memento_address ext h mp object + kPointerSize)"
  then show "FindAllocationMemento mode cfg ext mp object h = (Inr None, [])"
    by (simp add: FindAllocationMemento_eq)
next
  fix a i
  define sz where "sz = SizeFromMap ext (memory h) mp object"
  define k where "k = kPageSizeBits cfg"
  define m where "m = candidate_memento_address ext h mp object"
  assume wf: "3 \<le> kPageSizeBits cfg \<and> kPageSizeBits cfg \<le> 32
        \<and> 0 \<le> SizeFromMap ext (memory h) mp object
        \<and> SizeFromMap ext (memory h) mp object < 2 ^ 31
        \<and> 8 dvd SizeFromMap ext (memory h) mp object \<and> 8 dvd unat object"
    and a: "a \<in> set (snd (FindAllocationMemento mode cfg ext mp object h))"
    and i: "i < kPointerSize"
  from wf have k: "3 \<le> k" "k \<le> 32" and sz: "0 \<le> sz" "sz < 2 ^ 31" "8 dvd sz"
    and al: "8 dvd unat object"
    by (simp_all add: sz_def k_def)
  have mdef: "m = object + word_of_int sz"
    by (simp add: m_def sz_def candidate_memento_address_def)
  from FindAllocationMemento_reads [OF a]
  have same: "Page_OnSamePage cfg object (m + 8)" and am: "a = m \<or> a = m + 8"
    by (simp_all add: m_def kPointerSize_def)
  from same have same': "unat object div 2 ^ k = unat (object + word_of_int sz + 8) div 2 ^ k"
    by (simp add: Page_OnSamePage_iff k_def mdef)
  note nw = memento_words_no_wrap [OF k(2) sz(1,2) same']
  have um: "unat m = unat object + nat sz" and ul: "unat (m + 8) = unat object + nat sz + 8"
    using nw by (simp_all add: mdef)
  have ui: "unat i < 8" using i by (simp add: kPointerSize_def word_less_nat_alt)
  have i8: "i < 8" using i by (simp add: kPointerSize_def)
  have lb: "unat (m + 8) < 2 ^ 64" using unsigned_less [of "m + 8"] by simp
  from am show "Page_OnSamePage cfg object (a + i)"
  proof
    assume "a = m"
    have "unat m + unat i < 2 ^ 64" using ul lb um ui by simp
    then have "unat (m + i) = unat m + unat i" by (rule unat_add_small)
    then have "unat object \<le> unat (m + i)" "unat (m + i) \<le> unat (m + 8)"
      using um ul ui by simp_all
    from Page_OnSamePage_between [OF same this] \<open>a = m\<close> show ?thesis by simp
  next
    assume "a = m + 8"
    from sz(3) obtain q where q: "sz = 8 * q" by (auto simp: dvd_def)
    with sz(1) have "0 \<le> q" by simp
    with q have "nat sz = 8 * nat q" by (simp add: nat_mult_distrib)
    then have "8 dvd nat sz" by simp
    with al have "8 dvd unat (m + 8)" by (simp add: ul)
    from aligned_word_same_page [OF this i8 k(1)]
    have "unat (m + 8 + i) div 2 ^ k = unat (m + 8) div 2 ^ k" .
    with same \<open>a = m + 8\<close> show ?thesis by (simp add: Page_OnSamePage_iff k_def)
  qed
qed

theorem FindAllocationMemento_stays_on_page_witness:
  "FindAllocationMemento kForRuntime example_config example_externals (HeapObject 0x200300)
       0x80200 example_heap = (Inr (Some 0x80220), [0x80220, 0x80228])
   \<and> Page_OnSamePage example_config 0x80200 (0x80220 + 0)
   \<and> Page_OnSamePage example_config 0x80200 (0x80220 + 7)
   \<and> Page_OnSamePage example_config 0x80200 (0x80228 + 0)
   \<and> Page_OnSamePage example_config 0x80200 (0x80228 + 7)
   \<and> \<not> Page_OnSamePage example_config 0xFFFD8 (0xFFFF8 + kPointerSize)
   \<and> FindAllocationMemento kForRuntime example_config example_externals (HeapObject 0x200300)
       0xFFFD8 example_heap = (Inr None, [])"
proof -
  have wf: "3 \<le> kPageSizeBits example_config \<and> kPageSizeBits example_config \<le> 32
        \<and> 0 \<le> SizeFromMap example_externals (memory example_heap) (HeapObject 0x200300) 0x80200
        \<and> SizeFromMap example_externals (memory example_heap) (HeapObject 0x200300) 0x80200 < 2 ^ 31
        \<and> 8 dvd SizeFromMap example_externals (memory example_heap) (HeapObject 0x200300) 0x80200
        \<and> 8 dvd unat (0x80200 :: Address)"
    by (simp add: example_config_def example_externals_def)
  have c2: "candidate_memento_address example_externals example_heap (HeapObject 0x200300) 0xFFFD8 = 0xFFFF8"
    by (simp add: candidate_memento_address_def example_externals_def)
  have far: "\<not> Page_OnSamePage example_config 0xFFFD8 (0xFFFF8 + kPointerSize)"
    by (simp add: page_eval kPointerSize_def example_config_def)
  have run: "FindAllocationMemento kForRuntime example_config example_externals (HeapObject 0x200300)
       0x80200 example_heap = (Inr (Some 0x80220), [0x80220, 0x80228])"
    by (simp add: FindAllocationMemento_def FindAllocationMemento_switch_def age_mark_check_def
          IsFlagSet_def NewSpaceTop_def HeapObject_map_def
          AllocationMemento_IsValid_def kPointerSize_def page_eval example_defs)
  note on_page = FindAllocationMemento_stays_on_page
         [of example_config "0x80200" example_externals example_heap "HeapObject 0x200300"
             kForRuntime, THEN conjunct2, rule_format, OF wf]
  have p1: "Page_OnSamePage example_config 0x80200 (0x80220 + 0)"
    by (rule on_page) (simp_all add: run kPointerSize_def)
  have p2: "Page_OnSamePage example_config 0x80200 (0x80220 + 7)"
    by (rule on_page) (simp_all add: run kPointerSize_def)
  have p3: "Page_OnSamePage example_config 0x80200 (0x80228 + 0)"
    by (rule on_page) (simp_all add: run kPointerSize_def)
  have p4: "Page_OnSamePage example_config 0x80200 (0x80228 + 7)"
    by (rule on_page) (simp_all add: run kPointerSize_def)
  from FindAllocationMemento_stays_on_page
         [of example_config "0xFFFD8" example_externals example_heap "HeapObject 0x200300"
             kForRuntime] far c2
  have none: "FindAllocationMemento kForRuntime example_config example_externals
                 (HeapObject 0x200300) 0xFFFD8 example_heap = (Inr None, [])"
    by simp
  from run far none p1 p2 p3 p4 show ?thesis by (simp only: simp_thms)
qed

section \<open>The two modes of the memento search\<close>

text \<open>
  C5. In \<open>kForRuntime\<close> mode \<open>FindAllocationMemento\<close> returns \<open>nullptr\<close> whenever the
  candidate address equals the current allocation top of the young generation, and a
  memento that it returns is the candidate, differs from the top and has passed
  \<open>IsValid\<close>. In \<open>kForGC\<close> mode, once the page test, the map test and the age-mark test
  have passed, the candidate is returned, whatever the top and the payload are.
\<close>

theorem FindAllocationMemento_modes:
  "(candidate_memento_address ext h mp object = NewSpaceTop ext h \<longrightarrow>
      fst (FindAllocationMemento kForRuntime cfg ext mp object h) = Inr None)
   \<and> (\<forall>m. fst (FindAllocationMemento kForRuntime cfg ext mp object h) = Inr (Some m) \<longrightarrow>
         m = candidate_memento_address ext h mp object \<and> m \<noteq> NewSpaceTop ext h
         \<and> AllocationMemento_IsValid ext h m)
   \<and> (Page_OnSamePage cfg object (candidate_memento_address ext h mp object + kPointerSize)
        \<and> HeapObject_map h (candidate_memento_address ext h mp object)
            = HeapObject (allocation_memento_map h)
        \<and> age_mark_check cfg h object \<longrightarrow>
      FindAllocationMemento kForGC cfg ext mp object h
        = (Inr (Some (candidate_memento_address ext h mp object)),
           [candidate_memento_address ext h mp object]))"
  by (auto simp: FindAllocationMemento_eq Let_def FindAllocationMemento_dcheck_def
        HeapObject_map_def split: if_splits)

theorem FindAllocationMemento_modes_witness:
  "candidate_memento_address example_externals
       (example_heap\<lparr>new_space := \<lparr>identity = NEW_SPACE, bump_top = 0x80220, bump_limit = 0x100000\<rparr>\<rparr>)
       (HeapObject 0x200300) 0x80200
     = NewSpaceTop example_externals
         (example_heap\<lparr>new_space := \<lparr>identity = NEW_SPACE, bump_top = 0x80220, bump_limit = 0x100000\<rparr>\<rparr>)
   \<and> fst (FindAllocationMemento kForRuntime (example_config\<lparr>DEBUG := True\<rparr>) example_externals
         (HeapObject 0x200300) 0x80200
         (example_heap\<lparr>new_space := \<lparr>identity = NEW_SPACE, bump_top = 0x80220, bump_limit = 0x100000\<rparr>\<rparr>))
       = Inr None
   \<and> FindAllocationMemento kForGC (example_config\<lparr>DEBUG := True\<rparr>) example_externals
         (HeapObject 0x200300) 0x80200
         (example_heap\<lparr>new_space := \<lparr>identity = NEW_SPACE, bump_top = 0x80220, bump_limit = 0x100000\<rparr>\<rparr>)
       = (Inr (Some 0x80220), [0x80220])
   \<and> FindAllocationMemento kForRuntime (example_config\<lparr>DEBUG := True\<rparr>) example_externals
         (HeapObject 0x200300) 0x80200 example_heap
       = (Inr (Some 0x80220), [0x80220, 0x80228])
   \<and> AllocationMemento_IsValid example_externals example_heap 0x80220"
proof -
  let ?h = "example_heap\<lparr>new_space := \<lparr>identity = NEW_SPACE, bump_top = 0x80220, bump_limit = 0x100000\<rparr>\<rparr>"
  let ?cfg = "example_config\<lparr>DEBUG := True\<rparr>"
  have c: "candidate_memento_address example_externals ?h (HeapObject 0x200300) 0x80200 = 0x80220"
    by (simp add: candidate_memento_address_def example_externals_def)
  have t: "NewSpaceTop example_externals ?h = 0x80220"
    by (simp add: NewSpaceTop_def example_externals_def)
  have pre: "Page_OnSamePage ?cfg 0x80200 (0x80220 + kPointerSize)
        \<and> HeapObject_map ?h 0x80220 = HeapObject (allocation_memento_map ?h)
        \<and> age_mark_check ?cfg ?h 0x80200"
    by (simp add: age_mark_check_def IsFlagSet_def HeapObject_map_def kPointerSize_def
          page_eval example_defs)
  have run: "FindAllocationMemento kForRuntime ?cfg example_externals
         (HeapObject 0x200300) 0x80200 example_heap
       = (Inr (Some 0x80220), [0x80220, 0x80228])"
    by (simp add: FindAllocationMemento_def FindAllocationMemento_switch_def age_mark_check_def
          IsFlagSet_def NewSpaceTop_def
          FindAllocationMemento_dcheck_def HeapObject_map_def
          AllocationMemento_IsValid_def kPointerSize_def page_eval example_defs)
  from FindAllocationMemento_modes [of example_externals ?h "HeapObject 0x200300" "0x80200" ?cfg]
       FindAllocationMemento_modes [of example_externals example_heap "HeapObject 0x200300" "0x80200" ?cfg]
       c t pre run
  show ?thesis by simp
qed

section \<open>Mementos below the age mark\<close>

text \<open>
  C6. For every object whose page carries the flag \<open>NEW_SPACE_BELOW_AGE_MARK\<close>:
  \<open>FindAllocationMemento\<close> returns a memento only if the page contains the age mark of
  its semispace and the age mark is not above the object's address; if the page does
  not contain the age mark, or the object's address is strictly below the age mark, the
  result is \<open>nullptr\<close>.
\<close>

theorem FindAllocationMemento_below_age_mark:
  assumes "IsFlagSet (chunks h (Page_FromAddress cfg object)) NEW_SPACE_BELOW_AGE_MARK"
  shows "(\<forall>m. fst (FindAllocationMemento mode cfg ext mp object h) = Inr (Some m) \<longrightarrow>
            chunk_Contains (chunks h (Page_FromAddress cfg object))
              (owner_age_mark (chunks h (Page_FromAddress cfg object)))
            \<and> owner_age_mark (chunks h (Page_FromAddress cfg object)) \<le> object)
         \<and> (\<not> chunk_Contains (chunks h (Page_FromAddress cfg object))
                (owner_age_mark (chunks h (Page_FromAddress cfg object)))
             \<or> object < owner_age_mark (chunks h (Page_FromAddress cfg object)) \<longrightarrow>
               fst (FindAllocationMemento mode cfg ext mp object h) = Inr None)"
  using assms
  by (auto simp: FindAllocationMemento_eq Let_def age_mark_check_def
      split: if_splits FindMementoMode.splits)

theorem FindAllocationMemento_below_age_mark_witness:
  "IsFlagSet (chunks (aged_heap 0x80100) (Page_FromAddress example_config 0x80200))
      NEW_SPACE_BELOW_AGE_MARK
   \<and> FindAllocationMemento kForGC example_config example_externals (HeapObject 0x200300)
        0x80200 (aged_heap 0x80100) = (Inr (Some 0x80220), [0x80220])
   \<and> chunk_Contains (chunks (aged_heap 0x80100) (Page_FromAddress example_config 0x80200))
        (owner_age_mark (chunks (aged_heap 0x80100) (Page_FromAddress example_config 0x80200)))
   \<and> owner_age_mark (chunks (aged_heap 0x80100) (Page_FromAddress example_config 0x80200))
        \<le> 0x80200
   \<and> (0x80200 :: Address) < owner_age_mark (chunks (aged_heap 0x80300) (Page_FromAddress example_config 0x80200))
   \<and> fst (FindAllocationMemento kForGC example_config example_externals (HeapObject 0x200300)
        0x80200 (aged_heap 0x80300)) = Inr None
   \<and> \<not> chunk_Contains (chunks (aged_heap 0x180000) (Page_FromAddress example_config 0x80200))
        (owner_age_mark (chunks (aged_heap 0x180000) (Page_FromAddress example_config 0x80200)))
   \<and> fst (FindAllocationMemento kForGC example_config example_externals (HeapObject 0x200300)
        0x80200 (aged_heap 0x180000)) = Inr None"
proof -
  have pg: "Page_FromAddress example_config 0x80200 = 0x80000"
    by (simp add: Page_FromAddress_def mask_eq_exp_minus_1 example_config_def)
  have flag: "IsFlagSet (chunks (aged_heap mark) (Page_FromAddress example_config 0x80200))
      NEW_SPACE_BELOW_AGE_MARK" for mark
    by (simp add: pg aged_heap_def IsFlagSet_def)
  have mark: "owner_age_mark (chunks (aged_heap mark) (Page_FromAddress example_config 0x80200)) = mark"
    for mark
    by (simp add: pg aged_heap_def)
  have cont: "chunk_Contains (chunks (aged_heap mark) (Page_FromAddress example_config 0x80200))
                = (\<lambda>a. 0x80100 \<le> a \<and> a < 0x100000)" for mark
    by (simp add: pg aged_heap_def young_chunk_def)
  have run: "FindAllocationMemento kForGC example_config example_externals (HeapObject 0x200300)
        0x80200 (aged_heap 0x80100) = (Inr (Some 0x80220), [0x80220])"
    by (simp add: FindAllocationMemento_def FindAllocationMemento_switch_def IsFlagSet_def
          HeapObject_map_def aged_heap_def kPointerSize_def page_eval example_defs)
  from FindAllocationMemento_below_age_mark [OF flag [of "0x80100"], of kForGC example_externals "HeapObject 0x200300"]
       FindAllocationMemento_below_age_mark [OF flag [of "0x80300"], of kForGC example_externals "HeapObject 0x200300"]
       FindAllocationMemento_below_age_mark [OF flag [of "0x180000"], of kForGC example_externals "HeapObject 0x200300"]
       flag [of "0x80100"] run
  show ?thesis by (simp add: mark cont)
qed

section \<open>Replaying events gives the same digest\<close>

lemma UpdateAllocationsHash_value_fields:
  "raw_allocations_hash (UpdateAllocationsHash_value ext v h) = fold_value ext (raw_allocations_hash h) v"
  "chunks (UpdateAllocationsHash_value ext v h) = chunks h"
  "allocations_count (UpdateAllocationsHash_value ext v h) = allocations_count h"
  "printed_digests (UpdateAllocationsHash_value ext v h) = printed_digests h"
  by (simp_all add: UpdateAllocationsHash_value_def fold_value_def Let_def)

lemma UpdateAllocationsHash_object_fields:
  "raw_allocations_hash (UpdateAllocationsHash_object cfg ext a h)
     = fold_value ext (raw_allocations_hash h) (object_hash_value cfg h a)"
  "chunks (UpdateAllocationsHash_object cfg ext a h) = chunks h"
  "allocations_count (UpdateAllocationsHash_object cfg ext a h) = allocations_count h"
  "printed_digests (UpdateAllocationsHash_object cfg ext a h) = printed_digests h"
  by (simp_all add: UpdateAllocationsHash_object_def UpdateAllocationsHash_value_fields)

lemma object_hash_value_chunks:
  "chunks h' = chunks h \<Longrightarrow> object_hash_value cfg h' a = object_hash_value cfg h a"
  by (simp add: object_hash_value_def)

lemma object_hash_value_placement:
  "same_placement cfg h1 h2 a1 a2 \<Longrightarrow> object_hash_value cfg h1 a1 = object_hash_value cfg h2 a2"
  by (simp add: same_placement_def object_hash_value_def page_offset_def space_of_def Let_def)

lemma event_values_same:
  "same_event cfg h1 h2 e1 e2 \<Longrightarrow> event_values cfg h1 e1 = event_values cfg h2 e2"
  by (cases e1; cases e2) (simp_all add: object_hash_value_placement)

lemma same_event_chunks:
  "chunks g1 = chunks h1 \<Longrightarrow> chunks g2 = chunks h2 \<Longrightarrow>
   same_event cfg g1 g2 e1 e2 = same_event cfg h1 h2 e1 e2"
  by (cases e1; cases e2) (simp_all add: same_placement_def space_of_def)

lemma dump_digest_if_due_eq:
  assumes "(word_of_int (FLAG_dump_allocations_digest_at_alloc cfg) :: 32 word) \<noteq> 0"
  shows "\<exists>g. dump_digest_if_due cfg h = Inr g \<and> chunks g = chunks h
           \<and> raw_allocations_hash g = raw_allocations_hash h
           \<and> allocations_count g = allocations_count h
           \<and> printed_digests g = printed_digests h @
                (if allocations_count h mod word_of_int (FLAG_dump_allocations_digest_at_alloc cfg) = 0
                 then [(allocations_count h, raw_allocations_hash h)] else [])"
  using assms by (simp add: dump_digest_if_due_def PrintAllocationsHash_def Let_def)

lemma deliver_event_digest:
  assumes vp: "FLAG_verify_predictable cfg"
    and d: "(word_of_int (FLAG_dump_allocations_digest_at_alloc cfg) :: 32 word) \<noteq> 0"
  shows "\<exists>g. deliver_event cfg ext e h = Inr g \<and> chunks g = chunks h
           \<and> raw_allocations_hash g = foldl (fold_value ext) (raw_allocations_hash h) (event_values cfg h e)
           \<and> allocations_count g = allocations_count h + 1
           \<and> printed_digests g = printed_digests h @
                (if (allocations_count h + 1) mod word_of_int (FLAG_dump_allocations_digest_at_alloc cfg) = 0
                 then [(allocations_count h + 1, raw_allocations_hash g)] else [])"
proof (cases e)
  case (AllocationEvent object n)
  define h1 where "h1 = (let h0 = h\<lparr>hook_calls := hook_calls h @ [(object, n)]\<rparr>
     in if is_tracking_allocations h0
        then h0\<lparr>profiler_allocation_events := profiler_allocation_events h0 @ [(object, n)]\<rparr>
        else h0)"
  define h5 where "h5 = UpdateAllocationsHash_value ext (word_of_int n)
     (UpdateAllocationsHash_object cfg ext object
        (MonotonicallyIncreasingTimeInMs (h1\<lparr>allocations_count := allocations_count h1 + 1\<rparr>)))"
  have f1: "chunks h1 = chunks h" "raw_allocations_hash h1 = raw_allocations_hash h"
    "allocations_count h1 = allocations_count h" "printed_digests h1 = printed_digests h"
    by (simp_all add: h1_def Let_def)
  have f5: "chunks h5 = chunks h"
    "raw_allocations_hash h5 = foldl (fold_value ext) (raw_allocations_hash h) (event_values cfg h e)"
    "allocations_count h5 = allocations_count h + 1" "printed_digests h5 = printed_digests h"
    by (simp_all add: h5_def AllocationEvent UpdateAllocationsHash_value_fields
          UpdateAllocationsHash_object_fields MonotonicallyIncreasingTimeInMs_def f1
          object_hash_value_def)
  from dump_digest_if_due_eq [OF d, of h5] obtain g where
    g: "dump_digest_if_due cfg h5 = Inr g" "chunks g = chunks h5"
       "raw_allocations_hash g = raw_allocations_hash h5"
       "allocations_count g = allocations_count h5"
       "printed_digests g = printed_digests h5 @
                (if allocations_count h5 mod word_of_int (FLAG_dump_allocations_digest_at_alloc cfg) = 0
                 then [(allocations_count h5, raw_allocations_hash h5)] else [])"
    by blast
  have "\<exists>g'. OnAllocationEvent cfg ext object n h = Inr g' \<and> chunks g' = chunks g
          \<and> raw_allocations_hash g' = raw_allocations_hash g
          \<and> allocations_count g' = allocations_count g
          \<and> printed_digests g' = printed_digests g"
    using vp g(1)
    by (simp add: OnAllocationEvent_def h5_def h1_def Let_def PrintStack_def)
  then obtain g' where g': "OnAllocationEvent cfg ext object n h = Inr g'" "chunks g' = chunks g"
      "raw_allocations_hash g' = raw_allocations_hash g"
      "allocations_count g' = allocations_count g"
      "printed_digests g' = printed_digests g"
    by blast
  show ?thesis
    by (rule exI [of _ g']) (simp add: AllocationEvent g' g f5)
next
  case (MoveEvent target source n)
  define h2 where "h2 = (let h1 = (if is_tracking_object_moves h
                then h\<lparr>profiler_move_events := profiler_move_events h @ [(source, target, n)]\<rparr>
                else h)
      in if IsSharedFunctionInfo ext (memory h1) target \<and> is_logging_code_events h1
         then h1\<lparr>logger_move_events := logger_move_events h1 @ [(source, target)]\<rparr>
         else h1)"
  define h7 where "h7 = UpdateAllocationsHash_value ext (word_of_int n)
     (UpdateAllocationsHash_object cfg ext target
       (UpdateAllocationsHash_object cfg ext source
        (MonotonicallyIncreasingTimeInMs (h2\<lparr>allocations_count := allocations_count h2 + 1\<rparr>))))"
  have f2: "chunks h2 = chunks h" "raw_allocations_hash h2 = raw_allocations_hash h"
    "allocations_count h2 = allocations_count h" "printed_digests h2 = printed_digests h"
    by (simp_all add: h2_def Let_def)
  have f7: "chunks h7 = chunks h"
    "raw_allocations_hash h7 = foldl (fold_value ext) (raw_allocations_hash h) (event_values cfg h e)"
    "allocations_count h7 = allocations_count h + 1" "printed_digests h7 = printed_digests h"
    by (simp_all add: h7_def MoveEvent UpdateAllocationsHash_value_fields
          UpdateAllocationsHash_object_fields MonotonicallyIncreasingTimeInMs_def f2
          object_hash_value_def)
  have "OnMoveEvent cfg ext target source n h = dump_digest_if_due cfg h7"
    using vp by (simp add: OnMoveEvent_def h7_def h2_def Let_def)
  with dump_digest_if_due_eq [OF d, of h7] obtain g where
    g: "OnMoveEvent cfg ext target source n h = Inr g" "chunks g = chunks h7"
       "raw_allocations_hash g = raw_allocations_hash h7"
       "allocations_count g = allocations_count h7"
       "printed_digests g = printed_digests h7 @
                (if allocations_count h7 mod word_of_int (FLAG_dump_allocations_digest_at_alloc cfg) = 0
                 then [(allocations_count h7, raw_allocations_hash h7)] else [])"
    by auto
  show ?thesis
    by (rule exI [of _ g]) (simp add: MoveEvent g f7)
qed

lemma run_events_replay:
  assumes vp: "FLAG_verify_predictable cfg"
    and d: "(word_of_int (FLAG_dump_allocations_digest_at_alloc cfg) :: 32 word) \<noteq> 0"
  shows "list_all2 (same_event cfg h1 h2) es1 es2 \<Longrightarrow>
         raw_allocations_hash h1 = raw_allocations_hash h2 \<Longrightarrow>
         \<exists>g1 g2. run_events cfg ext es1 h1 = Inr g1 \<and> run_events cfg ext es2 h2 = Inr g2
           \<and> raw_allocations_hash g1 = raw_allocations_hash g2
           \<and> raw_allocations_hash g1
               = foldl (fold_value ext) (raw_allocations_hash h1) (concat (map (event_values cfg h1) es1))
           \<and> (allocations_count h1 = allocations_count h2 \<and> printed_digests h1 = printed_digests h2
                \<longrightarrow> allocations_count g1 = allocations_count g2
                    \<and> printed_digests g1 = printed_digests g2)"
proof (induction es1 arbitrary: es2 h1 h2)
  case Nil
  then show ?case by simp
next
  case (Cons e1 es1)
  from Cons.prems(1) obtain e2 es2' where es2: "es2 = e2 # es2'"
    and se: "same_event cfg h1 h2 e1 e2" and rest: "list_all2 (same_event cfg h1 h2) es1 es2'"
    by (auto simp: list_all2_Cons1)
  from deliver_event_digest [OF vp d, of ext e1 h1] obtain k1 where
    k1: "deliver_event cfg ext e1 h1 = Inr k1" "chunks k1 = chunks h1"
      "raw_allocations_hash k1 = foldl (fold_value ext) (raw_allocations_hash h1) (event_values cfg h1 e1)"
      "allocations_count k1 = allocations_count h1 + 1"
      "printed_digests k1 = printed_digests h1 @
                (if (allocations_count h1 + 1) mod word_of_int (FLAG_dump_allocations_digest_at_alloc cfg) = 0
                 then [(allocations_count h1 + 1, raw_allocations_hash k1)] else [])"
    by blast
  from deliver_event_digest [OF vp d, of ext e2 h2] obtain k2 where
    k2: "deliver_event cfg ext e2 h2 = Inr k2" "chunks k2 = chunks h2"
      "raw_allocations_hash k2 = foldl (fold_value ext) (raw_allocations_hash h2) (event_values cfg h2 e2)"
      "allocations_count k2 = allocations_count h2 + 1"
      "printed_digests k2 = printed_digests h2 @
                (if (allocations_count h2 + 1) mod word_of_int (FLAG_dump_allocations_digest_at_alloc cfg) = 0
                 then [(allocations_count h2 + 1, raw_allocations_hash k2)] else [])"
    by blast
  have raw: "raw_allocations_hash k1 = raw_allocations_hash k2"
    using k1(3) k2(3) Cons.prems(2) event_values_same [OF se] by simp
  have rel: "list_all2 (same_event cfg k1 k2) es1 es2'"
    using rest same_event_chunks [OF k1(2) k2(2), of cfg] by (simp add: list_all2_conv_all_nth)
  have vals: "map (event_values cfg k1) es1 = map (event_values cfg h1) es1"
  proof (rule map_cong [OF refl])
    fix e show "event_values cfg k1 e = event_values cfg h1 e"
      by (cases e) (simp_all add: object_hash_value_chunks [OF k1(2)])
  qed
  from Cons.IH [OF rel raw] obtain g1 g2 where
    g: "run_events cfg ext es1 k1 = Inr g1" "run_events cfg ext es2' k2 = Inr g2"
       "raw_allocations_hash g1 = raw_allocations_hash g2"
       "raw_allocations_hash g1
          = foldl (fold_value ext) (raw_allocations_hash k1) (concat (map (event_values cfg k1) es1))"
       "allocations_count k1 = allocations_count k2 \<and> printed_digests k1 = printed_digests k2
                \<longrightarrow> allocations_count g1 = allocations_count g2
                    \<and> printed_digests g1 = printed_digests g2"
    by blast
  have "allocations_count h1 = allocations_count h2 \<and> printed_digests h1 = printed_digests h2
        \<longrightarrow> allocations_count k1 = allocations_count k2 \<and> printed_digests k1 = printed_digests k2"
    using k1(4,5) k2(4,5) raw by simp
  with g k1(1,3) k2(1) vals show ?case
    by (simp add: es2)
qed

text \<open>
  C7. With \<open>FLAG_verify_predictable\<close> on (and a digest interval that is not zero), two
  runs over sequences of allocation and move events that agree, event by event, on the
  sizes, on the offsets of the objects in their pages and on the identities of the
  owning spaces, and that start from the same rolling hash, both return and end with
  the same rolling hash; if they also start with the same allocation count and the same
  printed digests, they print the same digests. The hash is the fold, in the order of
  the events, of the values of each event (object then size; source, target, then
  size), and each 32-bit value enters by two applications of the 16-bit mixing step,
  the low half first and the high half second.
\<close>

theorem deterministic_hash_replay:
  assumes "FLAG_verify_predictable cfg"
    and "(word_of_int (FLAG_dump_allocations_digest_at_alloc cfg) :: 32 word) \<noteq> 0"
    and "list_all2 (same_event cfg h1 h2) es1 es2"
    and "raw_allocations_hash h1 = raw_allocations_hash h2"
  shows "(\<exists>g1 g2. run_events cfg ext es1 h1 = Inr g1 \<and> run_events cfg ext es2 h2 = Inr g2
           \<and> raw_allocations_hash g1 = raw_allocations_hash g2
           \<and> raw_allocations_hash g1
               = foldl (fold_value ext) (raw_allocations_hash h1) (concat (map (event_values cfg h1) es1))
           \<and> (allocations_count h1 = allocations_count h2 \<and> printed_digests h1 = printed_digests h2
                \<longrightarrow> allocations_count g1 = allocations_count g2
                    \<and> printed_digests g1 = printed_digests g2))
         \<and> (\<forall>v h. raw_allocations_hash (UpdateAllocationsHash_value ext v (h :: 'a Heap))
                    = AddCharacterCore ext
                        (AddCharacterCore ext (raw_allocations_hash h) (ucast v))
                        (ucast (drop_bit 16 v)))"
  using run_events_replay [OF assms]
  by (simp add: UpdateAllocationsHash_value_fields fold_value_def)

theorem deterministic_hash_replay_witness:
  "FLAG_verify_predictable example_config
   \<and> (word_of_int (FLAG_dump_allocations_digest_at_alloc example_config) :: 32 word) \<noteq> 0
   \<and> list_all2 (same_event example_config example_heap example_heap)
        [AllocationEvent 0x100200 32, MoveEvent 0x100300 0x100200 32]
        [AllocationEvent 0x180200 32, MoveEvent 0x180300 0x180200 32]
   \<and> (\<exists>g1 g2. run_events example_config example_externals
                  [AllocationEvent 0x100200 32, MoveEvent 0x100300 0x100200 32] example_heap = Inr g1
          \<and> run_events example_config example_externals
                  [AllocationEvent 0x180200 32, MoveEvent 0x180300 0x180200 32] example_heap = Inr g2
          \<and> raw_allocations_hash g1 = raw_allocations_hash g2
          \<and> printed_digests g1 = printed_digests g2)"
proof -
  have vp: "FLAG_verify_predictable example_config"
    and d: "(word_of_int (FLAG_dump_allocations_digest_at_alloc example_config) :: 32 word) \<noteq> 0"
    by (simp_all add: example_config_def)
  have rel: "list_all2 (same_event example_config example_heap example_heap)
        [AllocationEvent 0x100200 32, MoveEvent 0x100300 0x100200 32]
        [AllocationEvent 0x180200 32, MoveEvent 0x180300 0x180200 32]"
    by (simp add: same_placement_def page_offset_def space_of_def Page_FromAddress_def
          mask_eq_exp_minus_1 example_config_def example_heap_def)
  from deterministic_hash_replay [OF vp d rel refl, of example_externals] vp d rel
  show ?thesis by auto
qed

end
